theory Spec2Isabelle
  imports Complex_Main "HOL-Library.Word"
begin

section \<open>The AHRSComms module (flight/OpenPilot/Modules/AHRSComms/ahrs_comms.c)\<close>

text \<open>
  The module keeps the flight controller in step with the AHRS coprocessor. The embedding
  follows ahrs_comms.c function by function. Conventions:
  \<^item> where the code computes with \<open>float\<close> values (the magnetic reference, the
    attitude angles) they are IEEE 754 single-precision values with infinities and NaN, and
    every operation rounds to nearest, ties to even (\<open>double\<close> likewise, in double
    precision); \<open>float\<close> values that the code only copies or compares with a constant
    (calibration vectors, barometric altitude, dilution of precision, ground speed,
    heading, positions and velocities) are real numbers;
  \<^item> three-element arrays are triples;
  \<^item> a field of a request that the code declares but does not assign is \<open>None\<close>
    (its value in C is indeterminate), an assigned one is \<open>Some v\<close>;
  \<^item> the module's file-scope statics and the UAVObjects it reads and writes are the fields
    of one state record, which every function takes and returns;
  \<^item> the transport (pios_opahrs.c) is outside the module: what each of its primitives
    answers is an input of the model.
\<close>

subsection \<open>Single-precision arithmetic\<close>

text \<open>
  The values of a C \<open>float\<close> or \<open>double\<close>: a finite number, an infinity or NaN. The
  sign of a zero is not modelled: the code's only divisor is a square root, which is never
  the negative zero, and its comparisons do not tell the two zeros apart.
\<close>

datatype fp = Finite real | PlusInf | MinusInf | NaN

type_synonym fvec3 = "fp \<times> fp \<times> fp"

text \<open>Rounding to the nearest integer, ties to even.\<close>

definition round_even :: "real \<Rightarrow> int" where
  "round_even q =
     (let f = \<lfloor>q\<rfloor>; r = q - of_int f
      in if r < 1 / 2 then f else if r > 1 / 2 then f + 1 else if even f then f else f + 1)"

text \<open>
  Rounding a real number to the binary format with \<open>p\<close> significant bits and exponents
  from \<open>e_min\<close> to \<open>e_max\<close>: \<open>e\<close> is the exponent of the binade of \<open>x\<close>, not below
  \<open>e_min\<close> (the subnormal range), \<open>u\<close> the spacing of the format's values there; the
  quotient is rounded to an integer, and a result of magnitude \<open>2 ^ (e_max + 1)\<close> or more
  overflows to an infinity.
\<close>

definition round_to :: "nat \<Rightarrow> int \<Rightarrow> int \<Rightarrow> real \<Rightarrow> fp" where
  "round_to p e_min e_max x =
     (if x = 0 then Finite 0
      else let e = max \<lfloor>log 2 \<bar>x\<bar>\<rfloor> e_min;
               u = 2 powr (of_int (e - (int p - 1)));
               y = of_int (round_even (x / u)) * u
           in if \<bar>y\<bar> \<ge> 2 powr (of_int (e_max + 1))
              then (if y < 0 then MinusInf else PlusInf)
              else Finite y)"

definition round32 :: "real \<Rightarrow> fp" where
  "round32 = round_to 24 (- 126) 127"

definition round64 :: "real \<Rightarrow> fp" where
  "round64 = round_to 53 (- 1022) 1023"

text \<open>The \<open>float\<close> operations \<open>+\<close>, \<open>-\<close>, \<open>*\<close>, \<open>/\<close> and \<open><\<close>.\<close>

fun fneg :: "fp \<Rightarrow> fp" where
  "fneg (Finite x) = Finite (- x)"
| "fneg PlusInf = MinusInf"
| "fneg MinusInf = PlusInf"
| "fneg NaN = NaN"

fun fadd :: "fp \<Rightarrow> fp \<Rightarrow> fp" where
  "fadd NaN b = NaN"
| "fadd a NaN = NaN"
| "fadd PlusInf MinusInf = NaN"
| "fadd MinusInf PlusInf = NaN"
| "fadd PlusInf b = PlusInf"
| "fadd MinusInf b = MinusInf"
| "fadd a PlusInf = PlusInf"
| "fadd a MinusInf = MinusInf"
| "fadd (Finite x) (Finite y) = round32 (x + y)"

definition fsub :: "fp \<Rightarrow> fp \<Rightarrow> fp" where
  "fsub a b = fadd a (fneg b)"

fun fmul :: "fp \<Rightarrow> fp \<Rightarrow> fp" where
  "fmul NaN b = NaN"
| "fmul a NaN = NaN"
| "fmul PlusInf PlusInf = PlusInf"
| "fmul PlusInf MinusInf = MinusInf"
| "fmul MinusInf PlusInf = MinusInf"
| "fmul MinusInf MinusInf = PlusInf"
| "fmul PlusInf (Finite y) = (if y = 0 then NaN else if 0 < y then PlusInf else MinusInf)"
| "fmul MinusInf (Finite y) = (if y = 0 then NaN else if 0 < y then MinusInf else PlusInf)"
| "fmul (Finite x) PlusInf = (if x = 0 then NaN else if 0 < x then PlusInf else MinusInf)"
| "fmul (Finite x) MinusInf = (if x = 0 then NaN else if 0 < x then MinusInf else PlusInf)"
| "fmul (Finite x) (Finite y) = round32 (x * y)"

fun fdiv :: "fp \<Rightarrow> fp \<Rightarrow> fp" where
  "fdiv NaN b = NaN"
| "fdiv a NaN = NaN"
| "fdiv PlusInf PlusInf = NaN"
| "fdiv PlusInf MinusInf = NaN"
| "fdiv MinusInf PlusInf = NaN"
| "fdiv MinusInf MinusInf = NaN"
| "fdiv PlusInf (Finite y) = (if y < 0 then MinusInf else PlusInf)"
| "fdiv MinusInf (Finite y) = (if y < 0 then PlusInf else MinusInf)"
| "fdiv (Finite x) PlusInf = Finite 0"
| "fdiv (Finite x) MinusInf = Finite 0"
| "fdiv (Finite x) (Finite y) =
     (if y = 0 then (if x = 0 then NaN else if 0 < x then PlusInf else MinusInf)
      else round32 (x / y))"

fun flt :: "fp \<Rightarrow> fp \<Rightarrow> bool" where
  "flt (Finite x) (Finite y) = (x < y)"
| "flt (Finite x) PlusInf = True"
| "flt MinusInf (Finite y) = True"
| "flt MinusInf PlusInf = True"
| "flt a b = False"

text \<open>
  \<open>sqrt\<close> is the C library's double-precision function: the \<open>float\<close> argument is
  converted to \<open>double\<close> without change, the root is rounded to \<open>double\<close>, and the
  assignment to a \<open>float\<close> rounds once more.
\<close>

fun fsqrt :: "fp \<Rightarrow> fp" where
  "fsqrt NaN = NaN"
| "fsqrt PlusInf = PlusInf"
| "fsqrt MinusInf = NaN"
| "fsqrt (Finite x) =
     (if x < 0 then NaN
      else case round64 (sqrt x) of Finite d \<Rightarrow> round32 d | r \<Rightarrow> r)"

subsection \<open>Values and enumerations\<close>

type_synonym vec3 = "real \<times> real \<times> real"

text \<open>\<open>enum opahrs_result\<close> of pios_opahrs.h; the module only compares with
  \<open>OPAHRS_RESULT_OK\<close>.\<close>

datatype opahrs_result = OPAHRS_RESULT_OK | OPAHRS_RESULT_TIMEOUT | OPAHRS_RESULT_FAILED

text \<open>The enumerations of pios_opahrs_proto.h that the module names.\<close>

datatype measure_mode = AHRS_SET | AHRS_MEASURE | AHRS_ECHO

datatype algorithms = SIMPLE_Algo | INSGPS_Algo

text \<open>
  Modelled from the spec: the generated UAVObject headers (ahrsstatus.h, ahrssettings.h,
  homelocation.h, ahrscalibration.h) are not among the sources. Their enumeration fields are
  8-bit values and the named options are constants. The spec treats every \<open>..._FALSE\<close>
  option as "false" and every \<open>..._TRUE\<close> option as "true", and says of the reset of
  AlgorithmSet with the calibration domain's false sentinel that it behaves as a reset to
  false; so the FALSE options share one value and the TRUE options another. The two
  algorithm choices and the two named calibration modes are distinct values.
\<close>

definition AHRSSTATUS_HOMESET_FALSE :: "8 word" where "AHRSSTATUS_HOMESET_FALSE = 0"
definition AHRSSTATUS_HOMESET_TRUE :: "8 word" where "AHRSSTATUS_HOMESET_TRUE = 1"
definition AHRSSTATUS_CALIBRATIONSET_FALSE :: "8 word" where "AHRSSTATUS_CALIBRATIONSET_FALSE = 0"
definition AHRSSTATUS_CALIBRATIONSET_TRUE :: "8 word" where "AHRSSTATUS_CALIBRATIONSET_TRUE = 1"
definition AHRSSTATUS_ALGORITHMSET_FALSE :: "8 word" where "AHRSSTATUS_ALGORITHMSET_FALSE = 0"
definition AHRSSTATUS_ALGORITHMSET_TRUE :: "8 word" where "AHRSSTATUS_ALGORITHMSET_TRUE = 1"
definition HOMELOCATION_SET_FALSE :: "8 word" where "HOMELOCATION_SET_FALSE = 0"
definition HOMELOCATION_INDOOR_TRUE :: "8 word" where "HOMELOCATION_INDOOR_TRUE = 1"
definition AHRSSETTINGS_ALGORITHM_SIMPLE :: "8 word" where "AHRSSETTINGS_ALGORITHM_SIMPLE = 0"
definition AHRSSETTINGS_ALGORITHM_INSGPS :: "8 word" where "AHRSSETTINGS_ALGORITHM_INSGPS = 1"
definition AHRSCALIBRATION_MEASURE_VAR_SET :: "8 word" where "AHRSCALIBRATION_MEASURE_VAR_SET = 0"
definition AHRSCALIBRATION_MEASURE_VAR_MEASURE :: "8 word" where
  "AHRSCALIBRATION_MEASURE_VAR_MEASURE = 1"

subsection \<open>UAVObjects read and written by the module\<close>

text \<open>
  Only the fields that ahrs_comms.c names. The generated headers that declare them are not
  among the sources: fields compared with enumeration options or tested for truth are
  8-bit values, fields the code casts to \<open>double\<close> or divides as integers (latitude,
  longitude, the ECEF origin in centimetres) and the satellite count are integers, CPU and
  timing figures are naturals, the magnetic reference, the attitude and its bias settings,
  the GPS altitude and geoid separation are single-precision values, and the remaining
  fields are real numbers. \<open>CommErrors\<close>
  is indexed by the five \<open>AHRSSTATUS_COMMERRORS_...\<close> constants, one field each here.
\<close>

record AhrsStatusData =
  HomeSet :: "8 word"
  CalibrationSet :: "8 word"
  AlgorithmSet :: "8 word"
  SerialNumber :: "8 word list"
  CommErrors_UPDATE :: "16 word"
  CommErrors_ATTITUDERAW :: "16 word"
  CommErrors_HOMELOCATION :: "16 word"
  CommErrors_CALIBRATION :: "16 word"
  CommErrors_ALGORITHM :: "16 word"
  CPULoad :: nat
  IdleTimePerCyle :: nat
  RunningTimePerCyle :: nat
  DroppedUpdates :: nat

record AHRSSettingsData =
  Algorithm :: "8 word"
  UpdateRaw :: "8 word"
  UpdateFiltered :: "8 word"
  UpdatePeriod :: nat

record AHRSCalibrationData =
  measure_var :: "8 word"
  accel_bias :: vec3
  accel_scale :: vec3
  accel_var :: vec3
  gyro_bias :: vec3
  gyro_scale :: vec3
  gyro_var :: vec3
  mag_bias :: vec3
  mag_scale :: vec3
  mag_var :: vec3

record HomeLocationData =
  home_Set :: "8 word"
  home_Indoor :: "8 word"
  home_Be :: fvec3
  home_ECEF :: "int \<times> int \<times> int"
  home_RNE :: "real list"

record GPSPositionData =
  Satellites :: int
  PDOP :: real
  Latitude :: int
  Longitude :: int
  Altitude :: fp
  GeoidSeparation :: fp
  Groundspeed :: real
  Heading :: real

record BaroAltitudeData =
  baro_Altitude :: real

record AttitudeSettingsData =
  RollBias :: fp
  PitchBias :: fp

record AttitudeActualData =
  q1 :: fp
  q2 :: fp
  q3 :: fp
  q4 :: fp
  Roll :: fp
  Pitch :: fp
  Yaw :: fp

record PositionActualData =
  pos_NED :: vec3
  pos_Vel :: vec3

record AttitudeRawData =
  magnetometers :: vec3
  gyros :: vec3
  gyros_filtered :: vec3
  gyrotemp :: "real \<times> real"
  accels :: vec3
  accels_filtered :: vec3

subsection \<open>Wire messages (pios_opahrs_proto.h), as far as the module fills or reads them\<close>

record opahrs_msg_v1_req_north =
  Be :: fvec3

record opahrs_msg_v1_req_calibration =
  req_measure_var :: measure_mode
  req_accel_bias :: vec3
  req_accel_scale :: vec3
  req_accel_var :: vec3
  req_gyro_bias :: vec3
  req_gyro_scale :: vec3
  req_gyro_var :: vec3
  req_mag_bias :: vec3
  req_mag_var :: vec3

record opahrs_msg_v1_rsp_calibration =
  rsp_measure_var :: measure_mode
  rsp_accel_var :: vec3
  rsp_gyro_var :: vec3
  rsp_mag_var :: vec3

record opahrs_msg_v1_req_algorithm =
  algorithm :: "algorithms option"

record barometer_submsg =
  baro_altitude :: "real option"
  baro_updated :: "bool option"

record gps_submsg =
  gps_NED :: "vec3 option"
  gps_groundspeed :: "real option"
  gps_heading :: "real option"
  gps_quality :: "int option"
  gps_updated :: "bool option"

record opahrs_msg_v1_req_update =
  barometer :: barometer_submsg
  gps :: gps_submsg

record opahrs_msg_v1_rsp_update =
  quaternion :: "fp \<times> fp \<times> fp \<times> fp"
  rsp_NED :: vec3
  rsp_Vel :: vec3
  load :: nat
  idle_time :: nat
  run_time :: nat
  dropped_updates :: nat

record opahrs_msg_v1_rsp_attituderaw =
  rsp_mags :: vec3
  rsp_gyros :: vec3
  rsp_gyros_xy_temp :: real
  rsp_gyros_z_temp :: real
  rsp_gyros_filtered :: vec3
  rsp_accels :: vec3
  rsp_accels_filtered :: vec3

record opahrs_msg_v1_rsp_serial =
  serial_bcd :: "8 word list"

text \<open>A request as handed to the transport, tagged with the primitive that sends it.\<close>

datatype opahrs_req =
    REQ_resync
  | REQ_serial
  | REQ_north opahrs_msg_v1_req_north
  | REQ_calibration opahrs_msg_v1_req_calibration
  | REQ_algorithm opahrs_msg_v1_req_algorithm
  | REQ_attituderaw
  | REQ_update opahrs_msg_v1_req_update

text \<open>
  What the transport answers when a primitive is next called: the result code and, for
  the primitives that return one, the response. A period calls each primitive at most
  once, so one such record describes the link for one step of the task.
\<close>

record transport =
  PIOS_OPAHRS_resync :: opahrs_result
  PIOS_OPAHRS_GetSerial :: "opahrs_result \<times> opahrs_msg_v1_rsp_serial"
  PIOS_OPAHRS_SetMagNorth :: opahrs_result
  PIOS_OPAHRS_SetGetCalibration :: "opahrs_result \<times> opahrs_msg_v1_rsp_calibration"
  PIOS_OPAHRS_SetAlgorithm :: opahrs_result
  PIOS_OPAHRS_GetAttitudeRaw :: "opahrs_result \<times> opahrs_msg_v1_rsp_attituderaw"
  PIOS_OPAHRS_SetGetUpdate :: "opahrs_result \<times> opahrs_msg_v1_rsp_update"

text \<open>
  CoordinateConversions.c is not among the sources: its two functions that the module
  calls are parameters of the model.
\<close>

record coordinate_conversions =
  Quaternion2RPY :: "fp \<times> fp \<times> fp \<times> fp \<Rightarrow> fvec3"
  LLA2Base :: "fvec3 \<Rightarrow> vec3 \<Rightarrow> real list \<Rightarrow> vec3"

subsection \<open>Module state\<close>

text \<open>
  The file-scope statics of ahrs_comms.c (dirty flags, the echo-suppression flag, the GPS
  counter, the five error counters), the UAVObjects, the AHRSCOMMS alarm, the locals
  \<open>data\<close> and \<open>settings\<close> of \<open>ahrscommsTask\<close>, and the list of exchanges made so far,
  each with the result the transport gave.
\<close>

record module_state =
  AHRSSettingsIsUpdatedFlag :: bool
  BaroAltitudeIsUpdatedFlag :: bool
  GPSPositionIsUpdatedFlag :: bool
  HomeLocationIsUpdatedFlag :: bool
  AHRSCalibrationIsUpdatedFlag :: bool
  AHRSCalibrationIsLocallyUpdateFlag :: bool
  GPSGoodUpdates :: "32 word"
  update_errors :: "16 word"
  attituderaw_errors :: "16 word"
  home_errors :: "16 word"
  calibration_errors :: "16 word"
  algorithm_errors :: "16 word"
  AhrsStatus :: AhrsStatusData
  AHRSSettings :: AHRSSettingsData
  AHRSCalibration :: AHRSCalibrationData
  HomeLocation :: HomeLocationData
  GPSPosition :: GPSPositionData
  BaroAltitude :: BaroAltitudeData
  AttitudeSettings :: AttitudeSettingsData
  AttitudeActual :: AttitudeActualData
  PositionActual :: PositionActualData
  AttitudeRaw :: AttitudeRawData
  alarm_AHRSCOMMS_critical :: bool
  data :: AhrsStatusData
  settings :: AHRSSettingsData
  exchanges :: "(opahrs_req \<times> opahrs_result) list"

subsection \<open>Change notifications (the callbacks connected in AHRSCommsInitialize)\<close>

text \<open>The event descriptor handed to a callback; none of the callbacks looks at it.\<close>

type_synonym UAVObjEvent = nat

definition AHRSSettingsUpdatedCb :: "UAVObjEvent \<Rightarrow> module_state \<Rightarrow> module_state" where
  "AHRSSettingsUpdatedCb ev s = s\<lparr>AHRSSettingsIsUpdatedFlag := True\<rparr>"

definition BaroAltitudeUpdatedCb :: "UAVObjEvent \<Rightarrow> module_state \<Rightarrow> module_state" where
  "BaroAltitudeUpdatedCb ev s = s\<lparr>BaroAltitudeIsUpdatedFlag := True\<rparr>"

definition GPSPositionUpdatedCb :: "UAVObjEvent \<Rightarrow> module_state \<Rightarrow> module_state" where
  "GPSPositionUpdatedCb ev s = s\<lparr>GPSPositionIsUpdatedFlag := True\<rparr>"

definition HomeLocationUpdatedCb :: "UAVObjEvent \<Rightarrow> module_state \<Rightarrow> module_state" where
  "HomeLocationUpdatedCb ev s = s\<lparr>HomeLocationIsUpdatedFlag := True\<rparr>"

definition AHRSCalibrationUpdatedCb :: "UAVObjEvent \<Rightarrow> module_state \<Rightarrow> module_state" where
  "AHRSCalibrationUpdatedCb ev s =
     (if AHRSCalibrationIsLocallyUpdateFlag s = True
      then s\<lparr>AHRSCalibrationIsLocallyUpdateFlag := False\<rparr>
      else s\<lparr>AHRSCalibrationIsUpdatedFlag := True\<rparr>)"

subsection \<open>Marshalling\<close>

definition load_calibration :: "module_state \<Rightarrow> opahrs_msg_v1_req_calibration" where
  "load_calibration s =
     (let d = AHRSCalibration s in
      \<lparr> req_measure_var =
          (if measure_var d = AHRSCALIBRATION_MEASURE_VAR_SET then AHRS_SET
           else if measure_var d = AHRSCALIBRATION_MEASURE_VAR_MEASURE then AHRS_MEASURE
           else AHRS_ECHO),
        req_accel_bias = accel_bias d,
        req_accel_scale = accel_scale d,
        req_accel_var = accel_var d,
        req_gyro_bias = gyro_bias d,
        req_gyro_scale = gyro_scale d,
        req_gyro_var = gyro_var d,
        req_mag_bias = mag_bias d,
        req_mag_var = mag_var d \<rparr>)"

text \<open>\<open>AHRSCalibrationSet\<close> stores the record; the object store then notifies the
  subscribers, which is \<open>AHRSCalibrationUpdatedCb\<close> run later on.\<close>

definition AHRSCalibrationSet :: "AHRSCalibrationData \<Rightarrow> module_state \<Rightarrow> module_state" where
  "AHRSCalibrationSet d s = s\<lparr>AHRSCalibration := d\<rparr>"

definition update_calibration ::
  "opahrs_msg_v1_rsp_calibration \<Rightarrow> module_state \<Rightarrow> module_state" where
  "update_calibration calibration s =
     (let d = AHRSCalibration s;
          s1 = s\<lparr>AHRSCalibrationIsLocallyUpdateFlag := True\<rparr>;
          d' = d\<lparr>accel_var := rsp_accel_var calibration,
                 gyro_var := rsp_gyro_var calibration,
                 mag_var := rsp_mag_var calibration\<rparr>
      in AHRSCalibrationSet d' s1)"

definition load_magnetic_north :: "module_state \<Rightarrow> opahrs_msg_v1_req_north" where
  "load_magnetic_north s =
     (case home_Be (HomeLocation s) of (b0, b1, b2) \<Rightarrow>
        if b0 = Finite 0 \<and> b1 = Finite 0 \<and> b2 = Finite 0
        then \<lparr>Be = (Finite 1, Finite 0, Finite 0)\<rparr>
        else let len = fsqrt (fadd (fadd (fmul b0 b0) (fmul b1 b1)) (fmul b2 b2))
             in \<lparr>Be = (fdiv b0 len, fdiv b1 len, fdiv b2 len)\<rparr>)"

definition load_baro_altitude ::
  "opahrs_msg_v1_req_update \<Rightarrow> module_state \<Rightarrow> opahrs_msg_v1_req_update" where
  "load_baro_altitude update s =
     update\<lparr>barometer :=
       (barometer update)\<lparr>baro_altitude := Some (baro_Altitude (BaroAltitude s)),
                           baro_updated := Some True\<rparr>\<rparr>"

text \<open>C integer division truncates towards zero.\<close>

definition c_div :: "int \<Rightarrow> int \<Rightarrow> int" where
  "c_div a b = sgn a * sgn b * (\<bar>a\<bar> div \<bar>b\<bar>)"

text \<open>
  \<open>load_gps_position\<close> writes into the GPS part of the update request it is given and
  leaves alone what it does not assign. The quality tags are the integers the code
  writes: -1 (indoor), 0 (ramping) and 1 (good).
\<close>

definition load_gps_position ::
  "coordinate_conversions \<Rightarrow> opahrs_msg_v1_req_update \<Rightarrow> module_state
     \<Rightarrow> opahrs_msg_v1_req_update \<times> module_state" where
  "load_gps_position cc update s =
     (let d = GPSPosition s;
          home = HomeLocation s;
          g = (gps update)\<lparr>gps_updated := Some True\<rparr>
      in
      if home_Set home = HOMELOCATION_SET_FALSE \<or> home_Indoor home = HOMELOCATION_INDOOR_TRUE
      then
        (update\<lparr>gps := g\<lparr>gps_NED := Some (0, 0, 0),
                           gps_groundspeed := Some 0,
                           gps_heading := Some 0,
                           gps_quality := Some (- 1)\<rparr>\<rparr>, s)
      else if Satellites d \<ge> 7 \<and> PDOP d < 3.5 then
        if GPSGoodUpdates s < 30 then
          (update\<lparr>gps := g\<lparr>gps_quality := Some 0\<rparr>\<rparr>,
           s\<lparr>GPSGoodUpdates := GPSGoodUpdates s + 1\<rparr>)
        else
          (let LLA = (round64 (real_of_int (Latitude d) / 10000000),
                      round64 (real_of_int (Longitude d) / 10000000),
                      fadd (GeoidSeparation d) (Altitude d));
               ECEF = (case home_ECEF home of (e0, e1, e2) \<Rightarrow>
                        (real_of_int (c_div e0 100), real_of_int (c_div e1 100),
                         real_of_int (c_div e2 100)))
           in (update\<lparr>gps := g\<lparr>gps_groundspeed := Some (Groundspeed d),
                                gps_heading := Some (Heading d),
                                gps_NED := Some (LLA2Base cc LLA ECEF (home_RNE home)),
                                gps_quality := Some 1\<rparr>\<rparr>, s))
      else
        (update\<lparr>gps := g\<lparr>gps_quality := Some 0\<rparr>\<rparr>, s\<lparr>GPSGoodUpdates := 0\<rparr>))"

definition process_update ::
  "coordinate_conversions \<Rightarrow> opahrs_msg_v1_rsp_update \<Rightarrow> module_state \<Rightarrow> module_state" where
  "process_update cc update s =
     (let attitudeSettings = AttitudeSettings s;
          q = quaternion update;
          rpy = Quaternion2RPY cc q;
          yaw = snd (snd rpy);
          d = \<lparr> q1 = fst q, q2 = fst (snd q), q3 = fst (snd (snd q)), q4 = snd (snd (snd q)),
                Roll = fsub (fst rpy) (RollBias attitudeSettings),
                Pitch = fsub (fst (snd rpy)) (PitchBias attitudeSettings),
                Yaw = (if flt yaw (Finite 0) then fadd yaw (Finite 360) else yaw) \<rparr>;
          s1 = s\<lparr>AttitudeActual := d\<rparr>;
          pos = (PositionActual s1)\<lparr>pos_NED := rsp_NED update, pos_Vel := rsp_Vel update\<rparr>;
          s2 = s1\<lparr>PositionActual := pos\<rparr>;
          status = (AhrsStatus s2)\<lparr>CPULoad := load update,
                                    IdleTimePerCyle := idle_time update,
                                    RunningTimePerCyle := run_time update,
                                    DroppedUpdates := dropped_updates update\<rparr>
      in s2\<lparr>AhrsStatus := status\<rparr>)"

definition update_attitude_raw ::
  "opahrs_msg_v1_rsp_attituderaw \<Rightarrow> module_state \<Rightarrow> module_state" where
  "update_attitude_raw attituderaw s =
     s\<lparr>AttitudeRaw :=
         \<lparr> magnetometers = rsp_mags attituderaw,
           gyros = rsp_gyros attituderaw,
           gyros_filtered = rsp_gyros_filtered attituderaw,
           gyrotemp = (rsp_gyros_xy_temp attituderaw, rsp_gyros_z_temp attituderaw),
           accels = rsp_accels attituderaw,
           accels_filtered = rsp_accels_filtered attituderaw \<rparr>\<rparr>"

text \<open>The serial number is copied byte by byte, for every index of \<open>serial_bcd\<close>.\<close>

definition update_ahrs_status ::
  "opahrs_msg_v1_rsp_serial \<Rightarrow> module_state \<Rightarrow> module_state" where
  "update_ahrs_status serial s =
     (let d = AhrsStatus s;
          sn = fold (\<lambda>i sn. sn[i := serial_bcd serial ! i])
                 [0 ..< length (serial_bcd serial)] (SerialNumber d);
          d' = d\<lparr>SerialNumber := sn,
                 CommErrors_UPDATE := update_errors s,
                 CommErrors_ATTITUDERAW := attituderaw_errors s,
                 CommErrors_HOMELOCATION := home_errors s,
                 CommErrors_CALIBRATION := calibration_errors s,
                 CommErrors_ALGORITHM := algorithm_errors s\<rparr>
      in s\<lparr>AhrsStatus := d'\<rparr>)"

subsection \<open>The task \<open>ahrscommsTask\<close>\<close>

text \<open>\<open>AhrsStatusGet(&data)\<close> and \<open>AhrsStatusSet(&data)\<close> on the task's local
  \<open>data\<close>.\<close>

definition AhrsStatusGet :: "module_state \<Rightarrow> module_state" where
  "AhrsStatusGet s = s\<lparr>data := AhrsStatus s\<rparr>"

definition AhrsStatusSet :: "module_state \<Rightarrow> module_state" where
  "AhrsStatusSet s = s\<lparr>AhrsStatus := data s\<rparr>"

text \<open>An exchange is recorded with the request sent and the transport's result.\<close>

definition exchange :: "opahrs_req \<Rightarrow> opahrs_result \<Rightarrow> module_state \<Rightarrow> module_state" where
  "exchange req result s = s\<lparr>exchanges := exchanges s @ [(req, result)]\<rparr>"

text \<open>
  The top of the outer loop, up to the resync spin: the alarm is raised and the three
  status fields are written. AlgorithmSet is assigned the constant
  \<open>AHRSSTATUS_CALIBRATIONSET_FALSE\<close>, as in the source.
\<close>

definition resync_entry :: "module_state \<Rightarrow> module_state" where
  "resync_entry s =
     (let s1 = s\<lparr>alarm_AHRSCOMMS_critical := True\<rparr>;
          s2 = AhrsStatusGet s1;
          s3 = s2\<lparr>data := (data s2)\<lparr>HomeSet := AHRSSTATUS_HOMESET_FALSE\<rparr>\<rparr>;
          s4 = s3\<lparr>data := (data s3)\<lparr>CalibrationSet := AHRSSTATUS_CALIBRATIONSET_FALSE\<rparr>\<rparr>;
          s5 = s4\<lparr>data := (data s4)\<lparr>AlgorithmSet := AHRSSTATUS_CALIBRATIONSET_FALSE\<rparr>\<rparr>
      in AhrsStatusSet s5)"

text \<open>The inner loop is left by \<open>break\<close> on the first failed exchange of a period.\<close>

datatype loop_exit = Continue | Break

definition then_step ::
  "loop_exit \<times> module_state \<Rightarrow> (module_state \<Rightarrow> loop_exit \<times> module_state)
     \<Rightarrow> loop_exit \<times> module_state" where
  "then_step r f = (case r of (Break, s) \<Rightarrow> (Break, s) | (Continue, s) \<Rightarrow> f s)"

text \<open>Update home coordinate if it hasn't been updated.\<close>

definition update_home :: "transport \<Rightarrow> module_state \<Rightarrow> loop_exit \<times> module_state" where
  "update_home tr s0 =
     (let s = AhrsStatusGet s0 in
      if HomeLocationIsUpdatedFlag s \<or> HomeSet (data s) = AHRSSTATUS_HOMESET_FALSE then
        (let req = load_magnetic_north s;
             result = PIOS_OPAHRS_SetMagNorth tr;
             s1 = exchange (REQ_north req) result s
         in if result = OPAHRS_RESULT_OK then
              (let s2 = s1\<lparr>HomeLocationIsUpdatedFlag := False\<rparr>;
                   s3 = s2\<lparr>data := (data s2)\<lparr>HomeSet := AHRSSTATUS_HOMESET_TRUE\<rparr>\<rparr>
               in (Continue, AhrsStatusSet s3))
            else
              (let s2 = s1\<lparr>home_errors := home_errors s1 + 1\<rparr>;
                   s3 = s2\<lparr>data := (data s2)\<lparr>HomeSet := AHRSSTATUS_HOMESET_FALSE\<rparr>\<rparr>
               in (Break, AhrsStatusSet s3)))
      else (Continue, s))"

text \<open>Update calibration if necessary.\<close>

definition update_calibration_if_necessary ::
  "transport \<Rightarrow> module_state \<Rightarrow> loop_exit \<times> module_state" where
  "update_calibration_if_necessary tr s0 =
     (let s = AhrsStatusGet s0 in
      if AHRSCalibrationIsUpdatedFlag s
         \<or> CalibrationSet (data s) = AHRSSTATUS_CALIBRATIONSET_FALSE then
        (let req = load_calibration s;
             result = fst (PIOS_OPAHRS_SetGetCalibration tr);
             rsp = snd (PIOS_OPAHRS_SetGetCalibration tr);
             s1 = exchange (REQ_calibration req) result s
         in if result = OPAHRS_RESULT_OK then
              (let s2 = update_calibration rsp s1;
                   s3 = s2\<lparr>AHRSCalibrationIsUpdatedFlag := False\<rparr>;
                   s4 = (if rsp_measure_var rsp \<noteq> AHRS_ECHO
                         then s3\<lparr>data := (data s3)\<lparr>CalibrationSet :=
                                                     AHRSSTATUS_CALIBRATIONSET_TRUE\<rparr>\<rparr>
                         else s3)
               in (Continue, AhrsStatusSet s4))
            else
              (let s2 = s1\<lparr>data := (data s1)\<lparr>CalibrationSet :=
                                                AHRSSTATUS_CALIBRATIONSET_FALSE\<rparr>\<rparr>;
                   s3 = AhrsStatusSet s2
               in (Break, s3\<lparr>calibration_errors := calibration_errors s3 + 1\<rparr>)))
      else (Continue, s))"

text \<open>Update algorithm. The request is a fresh local: its algorithm field is assigned
  only by the two tests on the setting, one after the other.\<close>

definition update_algorithm :: "transport \<Rightarrow> module_state \<Rightarrow> loop_exit \<times> module_state" where
  "update_algorithm tr s =
     (if AHRSSettingsIsUpdatedFlag s
         \<or> AlgorithmSet (data s) = AHRSSTATUS_ALGORITHMSET_FALSE then
        (let req0 = \<lparr>algorithm = None\<rparr>;
             req1 = (if Algorithm (settings s) = AHRSSETTINGS_ALGORITHM_INSGPS
                     then req0\<lparr>algorithm := Some INSGPS_Algo\<rparr> else req0);
             req = (if Algorithm (settings s) = AHRSSETTINGS_ALGORITHM_SIMPLE
                    then req1\<lparr>algorithm := Some SIMPLE_Algo\<rparr> else req1);
             result = PIOS_OPAHRS_SetAlgorithm tr;
             s1 = exchange (REQ_algorithm req) result s
         in if result = OPAHRS_RESULT_OK then
              (let s2 = s1\<lparr>data := (data s1)\<lparr>AlgorithmSet := AHRSSTATUS_ALGORITHMSET_TRUE\<rparr>\<rparr>
               in (Continue, AhrsStatusSet s2))
            else
              (let s2 = s1\<lparr>data := (data s1)\<lparr>AlgorithmSet := AHRSSTATUS_ALGORITHMSET_FALSE\<rparr>\<rparr>;
                   s3 = AhrsStatusSet s2
               in (Break, s3\<lparr>algorithm_errors := algorithm_errors s3 + 1\<rparr>)))
      else (Continue, s))"

text \<open>If settings indicate, grab the raw and filtered data.\<close>

definition update_raw :: "transport \<Rightarrow> module_state \<Rightarrow> loop_exit \<times> module_state" where
  "update_raw tr s =
     (if UpdateRaw (settings s) \<noteq> 0 then
        (let result = fst (PIOS_OPAHRS_GetAttitudeRaw tr);
             rsp = snd (PIOS_OPAHRS_GetAttitudeRaw tr);
             s1 = exchange REQ_attituderaw result s
         in if result = OPAHRS_RESULT_OK then (Continue, update_attitude_raw rsp s1)
            else (Break, s1\<lparr>attituderaw_errors := attituderaw_errors s1 + 1\<rparr>))
      else (Continue, s))"

text \<open>The combined update. The request is a fresh local again.\<close>

definition unassigned_update :: opahrs_msg_v1_req_update where
  "unassigned_update =
     \<lparr> barometer = \<lparr>baro_altitude = None, baro_updated = None\<rparr>,
       gps = \<lparr>gps_NED = None, gps_groundspeed = None, gps_heading = None,
              gps_quality = None, gps_updated = None\<rparr> \<rparr>"

definition update_filtered ::
  "coordinate_conversions \<Rightarrow> transport \<Rightarrow> module_state \<Rightarrow> loop_exit \<times> module_state" where
  "update_filtered cc tr s =
     (if UpdateFiltered (settings s) \<noteq> 0 then
        (let req0 = unassigned_update;
             req1 = (if BaroAltitudeIsUpdatedFlag s then load_baro_altitude req0 s
                     else req0\<lparr>barometer := (barometer req0)\<lparr>baro_updated := Some False\<rparr>\<rparr>);
             (req, s1) = (if GPSPositionIsUpdatedFlag s then load_gps_position cc req1 s
                          else (req1\<lparr>gps := (gps req1)\<lparr>gps_updated := Some False\<rparr>\<rparr>, s));
             result = fst (PIOS_OPAHRS_SetGetUpdate tr);
             rsp = snd (PIOS_OPAHRS_SetGetUpdate tr);
             s2 = exchange (REQ_update req) result s1
         in if result = OPAHRS_RESULT_OK then
              (let s3 = (if baro_updated (barometer req) = Some True
                         then s2\<lparr>BaroAltitudeIsUpdatedFlag := False\<rparr> else s2);
                   s4 = (if gps_updated (gps req) = Some True
                         then s3\<lparr>GPSPositionIsUpdatedFlag := False\<rparr> else s3)
               in (Continue, process_update cc rsp s4))
            else (Break, s2\<lparr>update_errors := update_errors s2 + 1\<rparr>))
      else (Continue, s))"

text \<open>One pass through the body of the inner loop (the wait for the next period is
  not modelled).\<close>

definition streaming_period ::
  "coordinate_conversions \<Rightarrow> transport \<Rightarrow> module_state \<Rightarrow> loop_exit \<times> module_state" where
  "streaming_period cc tr s =
     then_step (then_step (then_step (then_step
       (update_home tr (s\<lparr>settings := AHRSSettings s\<rparr>))
       (update_calibration_if_necessary tr))
       (update_algorithm tr))
       (update_raw tr))
       (update_filtered cc tr)"

text \<open>
  Where the task stands between two calls of the transport: at the top of the outer loop
  (about to enter resynchronisation), in the resync spin, at the serial number query, or
  at the top of the inner loop. In the words of the specification the first two are
  RESYNCING, the third is IDENTITY and the last is STREAMING.
\<close>

datatype task_location = OUTER_LOOP | RESYNC_SPIN | GET_SERIAL | INNER_LOOP

fun task_step ::
  "coordinate_conversions \<Rightarrow> transport \<Rightarrow> task_location \<times> module_state
     \<Rightarrow> task_location \<times> module_state" where
  "task_step cc tr (OUTER_LOOP, s) = (RESYNC_SPIN, resync_entry s)"
| "task_step cc tr (RESYNC_SPIN, s) =
     (let result = PIOS_OPAHRS_resync tr; s1 = exchange REQ_resync result s
      in if result \<noteq> OPAHRS_RESULT_OK then (RESYNC_SPIN, s1) else (GET_SERIAL, s1))"
| "task_step cc tr (GET_SERIAL, s) =
     (let result = fst (PIOS_OPAHRS_GetSerial tr);
          rsp = snd (PIOS_OPAHRS_GetSerial tr);
          s1 = exchange REQ_serial result s
      in if result = OPAHRS_RESULT_OK
         then (INNER_LOOP, (update_ahrs_status rsp s1)\<lparr>alarm_AHRSCOMMS_critical := False\<rparr>)
         else (OUTER_LOOP, s1))"
| "task_step cc tr (INNER_LOOP, s) =
     (case streaming_period cc tr s of
        (Break, s') \<Rightarrow> (OUTER_LOOP, s')
      | (Continue, s') \<Rightarrow> (INNER_LOOP, s'))"

text \<open>The task starts by zeroing the GPS counter, once, before the outer loop.\<close>

definition ahrscommsTask_start :: "module_state \<Rightarrow> task_location \<times> module_state" where
  "ahrscommsTask_start s = (OUTER_LOOP, s\<lparr>GPSGoodUpdates := 0\<rparr>)"

text \<open>The task never returns; a run is the task's steps over a finite list of answers of
  the transport.\<close>

fun task_run ::
  "coordinate_conversions \<Rightarrow> transport list \<Rightarrow> task_location \<times> module_state
     \<Rightarrow> task_location \<times> module_state" where
  "task_run cc [] ts = ts"
| "task_run cc (tr # trs) ts = task_run cc trs (task_step cc tr ts)"


subsection \<open>Auxiliary notions for the statements below\<close>

text \<open>
  The state at power-up: the statics as ahrs_comms.c initialises them (flags false,
  counters zero), with an example content of the object store (everything zero or empty).
\<close>

definition boot_state :: module_state where
  "boot_state =
     \<lparr> AHRSSettingsIsUpdatedFlag = False,
       BaroAltitudeIsUpdatedFlag = False,
       GPSPositionIsUpdatedFlag = False,
       HomeLocationIsUpdatedFlag = False,
       AHRSCalibrationIsUpdatedFlag = False,
       AHRSCalibrationIsLocallyUpdateFlag = False,
       GPSGoodUpdates = 0,
       update_errors = 0,
       attituderaw_errors = 0,
       home_errors = 0,
       calibration_errors = 0,
       algorithm_errors = 0,
       AhrsStatus = \<lparr> HomeSet = 0, CalibrationSet = 0, AlgorithmSet = 0, SerialNumber = [],
                      CommErrors_UPDATE = 0, CommErrors_ATTITUDERAW = 0,
                      CommErrors_HOMELOCATION = 0, CommErrors_CALIBRATION = 0,
                      CommErrors_ALGORITHM = 0, CPULoad = 0, IdleTimePerCyle = 0,
                      RunningTimePerCyle = 0, DroppedUpdates = 0 \<rparr>,
       AHRSSettings = \<lparr> Algorithm = 0, UpdateRaw = 0, UpdateFiltered = 0, UpdatePeriod = 0 \<rparr>,
       AHRSCalibration = \<lparr> measure_var = 0,
                           accel_bias = (0, 0, 0), accel_scale = (0, 0, 0), accel_var = (0, 0, 0),
                           gyro_bias = (0, 0, 0), gyro_scale = (0, 0, 0), gyro_var = (0, 0, 0),
                           mag_bias = (0, 0, 0), mag_scale = (0, 0, 0), mag_var = (0, 0, 0) \<rparr>,
       HomeLocation = \<lparr> home_Set = 0, home_Indoor = 0, home_Be = (Finite 0, Finite 0, Finite 0),
                        home_ECEF = (0, 0, 0), home_RNE = [] \<rparr>,
       GPSPosition = \<lparr> Satellites = 0, PDOP = 0, Latitude = 0, Longitude = 0,
                       Altitude = Finite 0, GeoidSeparation = Finite 0, Groundspeed = 0,
                       Heading = 0 \<rparr>,
       BaroAltitude = \<lparr> baro_Altitude = 0 \<rparr>,
       AttitudeSettings = \<lparr> RollBias = Finite 0, PitchBias = Finite 0 \<rparr>,
       AttitudeActual = \<lparr> q1 = Finite 0, q2 = Finite 0, q3 = Finite 0, q4 = Finite 0,
                          Roll = Finite 0, Pitch = Finite 0, Yaw = Finite 0 \<rparr>,
       PositionActual = \<lparr> pos_NED = (0, 0, 0), pos_Vel = (0, 0, 0) \<rparr>,
       AttitudeRaw = \<lparr> magnetometers = (0, 0, 0), gyros = (0, 0, 0), gyros_filtered = (0, 0, 0),
                       gyrotemp = (0, 0), accels = (0, 0, 0), accels_filtered = (0, 0, 0) \<rparr>,
       alarm_AHRSCOMMS_critical = False,
       data = \<lparr> HomeSet = 0, CalibrationSet = 0, AlgorithmSet = 0, SerialNumber = [],
                CommErrors_UPDATE = 0, CommErrors_ATTITUDERAW = 0,
                CommErrors_HOMELOCATION = 0, CommErrors_CALIBRATION = 0,
                CommErrors_ALGORITHM = 0, CPULoad = 0, IdleTimePerCyle = 0,
                RunningTimePerCyle = 0, DroppedUpdates = 0 \<rparr>,
       settings = \<lparr> Algorithm = 0, UpdateRaw = 0, UpdateFiltered = 0, UpdatePeriod = 0 \<rparr>,
       exchanges = [] \<rparr>"

text \<open>
  A sequence of GPS samples: each sample is stored in the GPSPosition object and
  \<open>load_gps_position\<close> fills the GPS part of a fresh update request, as
  \<open>ahrscommsTask\<close> does once per period with a new fix. The result lists the GPS
  sub-messages in order.
\<close>

fun gps_samples ::
  "coordinate_conversions \<Rightarrow> GPSPositionData list \<Rightarrow> module_state
     \<Rightarrow> gps_submsg list \<times> module_state" where
  "gps_samples cc [] s = ([], s)"
| "gps_samples cc (d # ds) s =
     (let (u, s1) = load_gps_position cc unassigned_update (s\<lparr>GPSPosition := d\<rparr>);
          (us, s2) = gps_samples cc ds s1
      in (gps u # us, s2))"

text \<open>
  The five categories of communication error (the indices of \<open>CommErrors\<close>), the
  counter of each, and the category an exchange belongs to. Resync and the serial number
  query belong to none.
\<close>

datatype error_category = UPDATE | ATTITUDERAW | HOMELOCATION | CALIBRATION | ALGORITHM

fun error_counter :: "error_category \<Rightarrow> module_state \<Rightarrow> 16 word" where
  "error_counter UPDATE s = update_errors s"
| "error_counter ATTITUDERAW s = attituderaw_errors s"
| "error_counter HOMELOCATION s = home_errors s"
| "error_counter CALIBRATION s = calibration_errors s"
| "error_counter ALGORITHM s = algorithm_errors s"

fun req_category :: "opahrs_req \<Rightarrow> error_category option" where
  "req_category (REQ_north r) = Some HOMELOCATION"
| "req_category (REQ_calibration r) = Some CALIBRATION"
| "req_category (REQ_algorithm r) = Some ALGORITHM"
| "req_category REQ_attituderaw = Some ATTITUDERAW"
| "req_category (REQ_update r) = Some UPDATE"
| "req_category REQ_resync = None"
| "req_category REQ_serial = None"

text \<open>
  The statement about failures while streaming is phrased with three notions, defined from
  the specification's description of a period. \<open>answer tr c\<close> is the result the
  transport gives to the exchange of category \<open>c\<close>. \<open>due c s\<close> says that at the top of
  the period in state \<open>s\<close> the exchange of category \<open>c\<close> is to be made: a push when its
  dirty flag is set or its "synced" field is false, the raw request and the combined
  update when the settings enable them. \<open>attempted tr s cs\<close> lists the exchanges made
  when the categories \<open>cs\<close> are gone through in order: those that are due, up to and
  including the first one that the transport fails.
\<close>

fun answer :: "transport \<Rightarrow> error_category \<Rightarrow> opahrs_result" where
  "answer tr HOMELOCATION = PIOS_OPAHRS_SetMagNorth tr"
| "answer tr CALIBRATION = fst (PIOS_OPAHRS_SetGetCalibration tr)"
| "answer tr ALGORITHM = PIOS_OPAHRS_SetAlgorithm tr"
| "answer tr ATTITUDERAW = fst (PIOS_OPAHRS_GetAttitudeRaw tr)"
| "answer tr UPDATE = fst (PIOS_OPAHRS_SetGetUpdate tr)"

fun due :: "error_category \<Rightarrow> module_state \<Rightarrow> bool" where
  "due HOMELOCATION s \<longleftrightarrow>
     HomeLocationIsUpdatedFlag s \<or> HomeSet (AhrsStatus s) = AHRSSTATUS_HOMESET_FALSE"
| "due CALIBRATION s \<longleftrightarrow>
     AHRSCalibrationIsUpdatedFlag s
       \<or> CalibrationSet (AhrsStatus s) = AHRSSTATUS_CALIBRATIONSET_FALSE"
| "due ALGORITHM s \<longleftrightarrow>
     AHRSSettingsIsUpdatedFlag s \<or> AlgorithmSet (AhrsStatus s) = AHRSSTATUS_ALGORITHMSET_FALSE"
| "due ATTITUDERAW s \<longleftrightarrow> UpdateRaw (AHRSSettings s) \<noteq> 0"
| "due UPDATE s \<longleftrightarrow> UpdateFiltered (AHRSSettings s) \<noteq> 0"

fun attempted :: "transport \<Rightarrow> module_state \<Rightarrow> error_category list \<Rightarrow> error_category list" where
  "attempted tr s [] = []"
| "attempted tr s (c # cs) =
     (if due c s
      then (if answer tr c = OPAHRS_RESULT_OK then c # attempted tr s cs else [c])
      else attempted tr s cs)"

definition period_order :: "error_category list" where
  "period_order = [HOMELOCATION, CALIBRATION, ALGORITHM, ATTITUDERAW, UPDATE]"

text \<open>The list of exchanges made so far, each reduced to its category and its result.\<close>

definition exchange_log :: "module_state \<Rightarrow> (error_category option \<times> opahrs_result) list" where
  "exchange_log s = map (\<lambda>x. (req_category (fst x), snd x)) (exchanges s)"

text \<open>
  Auxiliary to the proof: the condition under which a block of the inner loop makes its
  exchange, read in the state in which the block starts; the effect of one block; and the
  effect of the blocks for the categories \<open>cs\<close> run from the top of a period.
\<close>

fun due_at :: "error_category \<Rightarrow> module_state \<Rightarrow> bool" where
  "due_at HOMELOCATION s \<longleftrightarrow>
     HomeLocationIsUpdatedFlag s \<or> HomeSet (AhrsStatus s) = AHRSSTATUS_HOMESET_FALSE"
| "due_at CALIBRATION s \<longleftrightarrow>
     AHRSCalibrationIsUpdatedFlag s
       \<or> CalibrationSet (AhrsStatus s) = AHRSSTATUS_CALIBRATIONSET_FALSE"
| "due_at ALGORITHM s \<longleftrightarrow>
     AHRSSettingsIsUpdatedFlag s \<or> AlgorithmSet (data s) = AHRSSTATUS_ALGORITHMSET_FALSE"
| "due_at ATTITUDERAW s \<longleftrightarrow> UpdateRaw (settings s) \<noteq> 0"
| "due_at UPDATE s \<longleftrightarrow> UpdateFiltered (settings s) \<noteq> 0"

definition block_effect ::
  "transport \<Rightarrow> error_category \<Rightarrow> module_state \<Rightarrow> loop_exit \<times> module_state \<Rightarrow> bool" where
  "block_effect tr c s r \<longleftrightarrow>
     exchange_log (snd r)
       = exchange_log s @ (if due_at c s then [(Some c, answer tr c)] else [])
     \<and> fst r = (if due_at c s \<and> answer tr c \<noteq> OPAHRS_RESULT_OK then Break else Continue)
     \<and> (\<forall>k. error_counter k (snd r)
            = (if k = c \<and> due_at c s \<and> answer tr c \<noteq> OPAHRS_RESULT_OK
               then error_counter k s + 1 else error_counter k s))"

definition run_effect ::
  "transport \<Rightarrow> error_category list \<Rightarrow> module_state \<Rightarrow> loop_exit \<times> module_state \<Rightarrow> bool" where
  "run_effect tr cs s r \<longleftrightarrow>
     exchange_log (snd r)
       = exchange_log s @ map (\<lambda>c. (Some c, answer tr c)) (attempted tr s cs)
     \<and> (fst r = Break \<longleftrightarrow> (\<exists>c\<in>set (attempted tr s cs). answer tr c \<noteq> OPAHRS_RESULT_OK))
     \<and> (\<forall>k. error_counter k (snd r)
            = (if k \<in> set (attempted tr s cs) \<and> answer tr k \<noteq> OPAHRS_RESULT_OK
               then error_counter k s + 1 else error_counter k s))"

text \<open>Home location set and not indoor, as \<open>load_gps_position\<close> tests it.\<close>

definition outdoor_home :: "module_state \<Rightarrow> bool" where
  "outdoor_home s \<longleftrightarrow> home_Set (HomeLocation s) \<noteq> HOMELOCATION_SET_FALSE
      \<and> home_Indoor (HomeLocation s) \<noteq> HOMELOCATION_INDOOR_TRUE"

subsection \<open>Example inputs\<close>

text \<open>
  Concrete inputs for the examples below. Stand-ins for CoordinateConversions.c: a
  conversion that answers the given roll, pitch and yaw for every quaternion, and a zero
  displacement for every position.
\<close>

definition fixed_conversions :: "fvec3 \<Rightarrow> coordinate_conversions" where
  "fixed_conversions rpy = \<lparr>Quaternion2RPY = (\<lambda>q. rpy), LLA2Base = (\<lambda>lla ecef rne. (0, 0, 0))\<rparr>"

definition zero_conversions :: coordinate_conversions where
  "zero_conversions = fixed_conversions (Finite 0, Finite 0, Finite 0)"

text \<open>A link on which every exchange succeeds; the calibration response echoes the
  mode \<open>AHRS_SET\<close>.\<close>

definition link_ok :: transport where
  "link_ok =
     \<lparr> PIOS_OPAHRS_resync = OPAHRS_RESULT_OK,
       PIOS_OPAHRS_GetSerial = (OPAHRS_RESULT_OK, \<lparr>serial_bcd = []\<rparr>),
       PIOS_OPAHRS_SetMagNorth = OPAHRS_RESULT_OK,
       PIOS_OPAHRS_SetGetCalibration =
         (OPAHRS_RESULT_OK, \<lparr>rsp_measure_var = AHRS_SET, rsp_accel_var = (0, 0, 0),
                              rsp_gyro_var = (0, 0, 0), rsp_mag_var = (0, 0, 0)\<rparr>),
       PIOS_OPAHRS_SetAlgorithm = OPAHRS_RESULT_OK,
       PIOS_OPAHRS_GetAttitudeRaw =
         (OPAHRS_RESULT_OK, \<lparr>rsp_mags = (0, 0, 0), rsp_gyros = (0, 0, 0), rsp_gyros_xy_temp = 0,
                              rsp_gyros_z_temp = 0, rsp_gyros_filtered = (0, 0, 0),
                              rsp_accels = (0, 0, 0), rsp_accels_filtered = (0, 0, 0)\<rparr>),
       PIOS_OPAHRS_SetGetUpdate =
         (OPAHRS_RESULT_OK, \<lparr>quaternion = (Finite 1, Finite 0, Finite 0, Finite 0), rsp_NED = (0, 0, 0), rsp_Vel = (0, 0, 0),
                              load = 0, idle_time = 0, run_time = 0, dropped_updates = 0\<rparr>) \<rparr>"

text \<open>The same link with the calibration response echoing \<open>AHRS_ECHO\<close>, and with the
  combined update failing.\<close>

definition link_echo :: transport where
  "link_echo = link_ok\<lparr>PIOS_OPAHRS_SetGetCalibration :=
      (OPAHRS_RESULT_OK, \<lparr>rsp_measure_var = AHRS_ECHO, rsp_accel_var = (0, 0, 0),
                           rsp_gyro_var = (0, 0, 0), rsp_mag_var = (0, 0, 0)\<rparr>)\<rparr>"

definition link_update_fails :: transport where
  "link_update_fails = link_ok\<lparr>PIOS_OPAHRS_SetGetUpdate :=
      (OPAHRS_RESULT_FAILED, snd (PIOS_OPAHRS_SetGetUpdate link_ok))\<rparr>"

text \<open>A fix that passes the gate (8 satellites, PDOP 2.0) and one that does not.\<close>

definition good_fix :: GPSPositionData where
  "good_fix = \<lparr> Satellites = 8, PDOP = 2, Latitude = 0, Longitude = 0, Altitude = Finite 0,
                 GeoidSeparation = Finite 0, Groundspeed = 0, Heading = 0 \<rparr>"

definition poor_fix :: GPSPositionData where
  "poor_fix = good_fix\<lparr>Satellites := 3\<rparr>"

text \<open>Power-up with the home location set; and, on top of that, filtered updates enabled
  and a good fix notified before the task first streams.\<close>

definition outdoor_state :: module_state where
  "outdoor_state = boot_state\<lparr>HomeLocation := (HomeLocation boot_state)\<lparr>home_Set := 1\<rparr>\<rparr>"

definition gps_boot_state :: module_state where
  "gps_boot_state =
     outdoor_state\<lparr>AHRSSettings := (AHRSSettings boot_state)\<lparr>UpdateFiltered := 1\<rparr>,
                   GPSPosition := good_fix, GPSPositionIsUpdatedFlag := True\<rparr>"

text \<open>The same at the top of a streaming period, the settings read.\<close>

definition streaming_gps_state :: module_state where
  "streaming_gps_state = gps_boot_state\<lparr>settings := AHRSSettings gps_boot_state\<rparr>"

text \<open>
  A run from power-up: entry, resync, serial number, one streaming period (one good fix
  sent), then a period in which the combined update fails, then the re-entry into
  resynchronisation.
\<close>

definition failed_update_run :: "task_location \<times> module_state" where
  "failed_update_run =
     task_run zero_conversions
       [link_ok, link_ok, link_ok, link_ok, link_update_fails, link_ok]
       (ahrscommsTask_start gps_boot_state)"

text \<open>
  A write of the calibration mode by another module: the object is stored and the
  subscribers are notified.
\<close>

definition edit_calibration_mode :: "8 word \<Rightarrow> module_state \<Rightarrow> module_state" where
  "edit_calibration_mode m s =
     AHRSCalibrationUpdatedCb 0
       (AHRSCalibrationSet ((AHRSCalibration s)\<lparr>measure_var := m\<rparr>) s)"

text \<open>
  A run from power-up through one successful streaming period, which pushes the
  calibration and latches CalibrationSet; then the notification of the task's own
  write-back arrives, and the calibration mode is edited to a value that is neither SET
  nor MEASURE.
\<close>

definition latched_state :: module_state where
  "latched_state =
     edit_calibration_mode 2 (AHRSCalibrationUpdatedCb 0
       (snd (task_run zero_conversions [link_ok, link_ok, link_ok, link_ok]
               (ahrscommsTask_start boot_state))))"

text \<open>Power-up with the stored magnetic reference \<open>(2^-100, 0, 0)\<close>.\<close>

definition tiny_reference_state :: module_state where
  "tiny_reference_state =
     boot_state\<lparr>HomeLocation :=
       (HomeLocation boot_state)\<lparr>home_Be := (Finite (1 / 2 ^ 100), Finite 0, Finite 0)\<rparr>\<rparr>"

text \<open>The responses of that link, and a state whose algorithm setting is neither of the
  two named choices.\<close>

definition rsp_calibration_zero :: opahrs_msg_v1_rsp_calibration where
  "rsp_calibration_zero = snd (PIOS_OPAHRS_SetGetCalibration link_ok)"

definition rsp_update_zero :: opahrs_msg_v1_rsp_update where
  "rsp_update_zero = snd (PIOS_OPAHRS_SetGetUpdate link_ok)"

definition other_algorithm_state :: module_state where
  "other_algorithm_state = boot_state\<lparr>settings := (settings boot_state)\<lparr>Algorithm := 2\<rparr>\<rparr>"

section \<open>Properties\<close>

lemmas uavobject_options =
  AHRSSTATUS_HOMESET_FALSE_def AHRSSTATUS_HOMESET_TRUE_def
  AHRSSTATUS_CALIBRATIONSET_FALSE_def AHRSSTATUS_CALIBRATIONSET_TRUE_def
  AHRSSTATUS_ALGORITHMSET_FALSE_def AHRSSTATUS_ALGORITHMSET_TRUE_def
  HOMELOCATION_SET_FALSE_def HOMELOCATION_INDOOR_TRUE_def
  AHRSSETTINGS_ALGORITHM_SIMPLE_def AHRSSETTINGS_ALGORITHM_INSGPS_def
  AHRSCALIBRATION_MEASURE_VAR_SET_def AHRSCALIBRATION_MEASURE_VAR_MEASURE_def

lemmas task_defs =
  ahrscommsTask_start_def resync_entry_def AhrsStatusGet_def AhrsStatusSet_def exchange_def
  Let_def update_ahrs_status_def streaming_period_def then_step_def update_home_def
  update_calibration_if_necessary_def update_algorithm_def update_raw_def update_filtered_def
  load_magnetic_north_def load_calibration_def update_calibration_def AHRSCalibrationSet_def
  AHRSCalibrationUpdatedCb_def load_gps_position_def load_baro_altitude_def process_update_def
  unassigned_update_def update_attitude_raw_def

lemmas example_defs =
  boot_state_def fixed_conversions_def zero_conversions_def link_ok_def link_echo_def
  link_update_fails_def good_fix_def poor_fix_def outdoor_state_def gps_boot_state_def
  failed_update_run_def edit_calibration_mode_def latched_state_def other_algorithm_state_def streaming_gps_state_def
  rsp_calibration_zero_def rsp_update_zero_def tiny_reference_state_def

subsection \<open>Facts about rounding\<close>

lemma round_even_bounds: "\<lfloor>q\<rfloor> \<le> round_even q \<and> round_even q \<le> \<lceil>q\<rceil>"
proof -
  have "q - of_int \<lfloor>q\<rfloor> > 0 \<Longrightarrow> \<lfloor>q\<rfloor> + 1 \<le> \<lceil>q\<rceil>"
    by linarith
  moreover have "0 \<le> q - of_int \<lfloor>q\<rfloor>" by linarith
  ultimately show ?thesis
    unfolding round_even_def Let_def
    by (auto simp add: ceiling_altdef) 
qed

lemma round_to_nonzero:
  assumes "x \<noteq> 0"
    and "e = max \<lfloor>log 2 \<bar>x\<bar>\<rfloor> e_min"
    and "u = 2 powr (of_int (e - (int p - 1)))"
    and "y = of_int (round_even (x / u)) * u"
  shows "round_to p e_min e_max x =
     (if \<bar>y\<bar> \<ge> 2 powr (of_int (e_max + 1))
      then (if y < 0 then MinusInf else PlusInf) else Finite y)"
  using assms by (simp add: round_to_def Let_def)

lemma round_to_zero [simp]: "round_to p e_min e_max 0 = Finite 0"
  by (simp add: round_to_def)

lemma round32_zero [simp]: "round32 0 = Finite 0"
  by (simp add: round32_def)

lemma round64_zero [simp]: "round64 0 = Finite 0"
  by (simp add: round64_def)

lemma round32_underflow:
  assumes "0 < x" "x < 2 powr (- 150)"
  shows "round32 x = Finite 0"
proof -
  have "log 2 x < - 150"
    using assms by (simp add: log_less_iff)
  then have fl: "\<lfloor>log 2 \<bar>x\<bar>\<rfloor> \<le> - 126" using assms(1) by (simp add: floor_le_iff)
  then have e: "max \<lfloor>log 2 \<bar>x\<bar>\<rfloor> (- 126) = - 126" by simp
  have q: "x / 2 powr (- 149) < 1 / 2"
  proof -
    have "x / 2 powr (- 149) < 2 powr (- 150) / 2 powr (- 149)"
      using assms(2) by (simp add: divide_strict_right_mono)
    also have "\<dots> = 2 powr (- 1)"
      by (simp add: powr_diff [symmetric])
    also have "\<dots> = 1 / 2" by (simp add: powr_minus_divide)
    finally show ?thesis .
  qed
  have q0: "0 < x / 2 powr (- 149)" using assms(1) by simp
  define q where "q = x / 2 powr (- 149)"
  have qb: "0 < q" "q < 1 / 2" using q q0 by (simp_all add: q_def)
  then have fz: "\<lfloor>q\<rfloor> = 0" by (simp add: floor_eq_iff)
  have "round_even q = 0"
    using qb fz by (simp add: round_even_def Let_def)
  then have r: "round_even (x / 2 powr (- 149)) = 0" by (simp add: q_def)
  have u: "(2::real) powr (- 149) = 2 powr (of_int (- 126 - (int 24 - 1)))" by simp
  have y: "(0::real) = of_int (round_even (x / 2 powr (- 149))) * 2 powr (- 149)"
    by (simp add: r)
  have "round32 x = (if \<bar>0::real\<bar> \<ge> 2 powr (of_int (127 + 1))
      then (if (0::real) < 0 then MinusInf else PlusInf) else Finite 0)"
    unfolding round32_def
    by (rule round_to_nonzero[OF _ e [symmetric] u y]) (use assms(1) in simp)
  then show ?thesis by simp
qed


lemma round_even_of_int [simp]: "round_even (of_int n) = n"
  by (simp add: round_even_def Let_def)

lemma round32_yaw_edge: "round32 (- (1 / 2 ^ 20) + 360) = Finite 360"
proof -
  define x :: real where "x = - (1 / 2 ^ 20) + 360"
  have xb: "2 powr 8 \<le> x" "x < 2 powr (8 + 1)" by (simp_all add: x_def)
  have xpos: "0 < x" by (simp add: x_def)
  have fl: "\<lfloor>log 2 \<bar>x\<bar>\<rfloor> = 8"
    using xb xpos by (simp add: floor_log_eq_powr_iff)
  have e: "(8::int) = max \<lfloor>log 2 \<bar>x\<bar>\<rfloor> (- 126)" by (simp add: fl)
  have u: "(1 / 2 ^ 15 :: real) = 2 powr (of_int (8 - (int 24 - 1)))"
    by (simp add: powr_minus_divide)
  have q: "x / (1 / 2 ^ 15) = 11796480 - 1 / 32" by (simp add: x_def)
  have f: "\<lfloor>(11796480 :: real) - 1 / 32\<rfloor> = 11796479"
    by (simp add: floor_eq_iff)
  have r: "round_even ((11796480 :: real) - 1 / 32) = 11796480"
    by (simp add: round_even_def Let_def f)
  have y: "(360::real) = of_int (round_even (x / (1 / 2 ^ 15))) * (1 / 2 ^ 15)"
    unfolding q r by simp
  have "round32 x = (if \<bar>360::real\<bar> \<ge> 2 powr (of_int (127 + 1))
      then (if (360::real) < 0 then MinusInf else PlusInf) else Finite 360)"
    unfolding round32_def
    by (rule round_to_nonzero[OF _ e u y]) (use xpos in simp)
  then have "round32 x = Finite 360" by simp
  then show ?thesis by (simp add: x_def)
qed

lemma round32_range_360:
  assumes "0 \<le> z" "z < 360"
  shows "\<exists>r. round32 z = Finite r \<and> 0 \<le> r \<and> r \<le> 360"
proof (cases "z = 0")
  case True
  then show ?thesis by simp
next
  case False
  with assms have zpos: "0 < z" by simp
  define e where "e = max \<lfloor>log 2 \<bar>z\<bar>\<rfloor> (- 126)"
  have "z < 2 powr 9" using assms(2) by simp
  then have "log 2 z < 9" using zpos by (simp add: log_less_iff)
  then have "\<lfloor>log 2 \<bar>z\<bar>\<rfloor> \<le> 8" using zpos by (simp add: floor_le_iff)
  then have e8: "e \<le> 8" by (simp add: e_def)
  define n where "n = nat (15 - (e - 8))"
  have en: "e - (int 24 - 1) = - int n" using e8 by (simp add: n_def)
  define u :: real where "u = 2 powr (of_int (e - (int 24 - 1)))"
  have u: "u = 1 / 2 ^ n"
    unfolding u_def en by (simp add: powr_minus_divide powr_realpow)
  have upos: "0 < u" by (simp add: u)
  define N :: int where "N = 360 * 2 ^ n"
  have Nu: "of_int N * u = 360" by (simp add: N_def u)
  have "z / u < of_int N"
    using assms(2) Nu upos by (simp add: pos_divide_less_eq)
  then have "\<lceil>z / u\<rceil> \<le> N" by (simp add: ceiling_le_iff)
  then have hi: "round_even (z / u) \<le> N"
    using round_even_bounds[of "z / u"] by linarith
  have "0 \<le> z / u" using zpos upos by simp
  then have "0 \<le> \<lfloor>z / u\<rfloor>" by simp
  then have lo: "0 \<le> round_even (z / u)"
    using round_even_bounds[of "z / u"] by linarith
  define y where "y = of_int (round_even (z / u)) * u"
  have y0: "0 \<le> y" using lo upos by (simp add: y_def)
  have "y \<le> of_int N * u" using hi upos by (simp add: y_def)
  then have y360: "y \<le> 360" using Nu by simp
  have big: "(360::real) < 2 powr 128" by simp
  have "round32 z = (if \<bar>y\<bar> \<ge> 2 powr (of_int (127 + 1))
      then (if y < 0 then MinusInf else PlusInf) else Finite y)"
    unfolding round32_def
    by (rule round_to_nonzero[OF _ e_def u_def y_def]) (use zpos in simp)
  then have "round32 z = Finite y" using y0 y360 big by simp
  with y0 y360 show ?thesis by blast
qed

text \<open>The first is the sum of a yaw of \<open>-2^-20\<close> and 360; the second bounds every
  rounded sum of a yaw in \<open>[-360, 0)\<close> and 360.\<close>

lemma round32_overflow:
  assumes "2 powr 128 \<le> x"
  shows "round32 x = PlusInf"
proof -
  have xpos: "0 < x" using assms by (smt (verit) powr_gt_zero)
  define e where "e = max \<lfloor>log 2 \<bar>x\<bar>\<rfloor> (- 126)"
  define u :: real where "u = 2 powr (of_int (e - (int 24 - 1)))"
  define y where "y = of_int (round_even (x / u)) * u"
  have upos: "0 < u" by (simp add: u_def)
  have "of_int \<lfloor>x / u\<rfloor> \<le> (of_int (round_even (x / u)) :: real)"
    using round_even_bounds[of "x / u"] by simp
  then have fy: "of_int \<lfloor>x / u\<rfloor> * u \<le> y" using upos by (simp add: y_def)
  have "128 \<le> log 2 x" using assms xpos by (simp add: le_log_iff)
  then have fl128: "128 \<le> \<lfloor>log 2 \<bar>x\<bar>\<rfloor>" using xpos by (simp add: le_floor_iff)
  then have e128: "128 \<le> e" by (simp add: e_def)
  define n where "n = nat (e - 23)"
  have en: "e - (int 24 - 1) = int n" using e128 by (simp add: n_def)
  have u: "u = 2 ^ n" unfolding u_def en by (simp add: powr_realpow)
  have nle: "128 - 23 \<le> n" using e128 by (simp add: n_def)
  define m :: int where "m = 2 ^ 23 * 2 ^ (n - 105)"
  have "(2::real) ^ n = 2 ^ (105 + (n - 105))" using nle by simp
  also have "\<dots> = 2 ^ 105 * 2 ^ (n - 105)" by (rule power_add)
  finally have u105: "u = 2 ^ 105 * 2 ^ (n - 105)" by (simp add: u)
  have "e = \<lfloor>log 2 \<bar>x\<bar>\<rfloor>" using fl128 by (simp add: e_def)
  then have "e \<le> \<lfloor>log 2 \<bar>x\<bar>\<rfloor>" by simp
  then have "of_int e \<le> log 2 x" using xpos by (simp add: le_floor_iff)
  then have "2 powr (of_int e) \<le> x" using xpos by (simp add: powr_le_iff)
  moreover have "2 powr (of_int e) = (2::real) ^ 23 * u"
  proof -
    have "of_int e = of_int (e - (int 24 - 1)) + (23::real)" by simp
    then have "(2::real) powr (of_int e) = 2 powr (of_int (e - (int 24 - 1))) * 2 powr 23"
      by (metis powr_add)
    then show ?thesis by (simp add: u_def)
  qed
  ultimately have "2 ^ 23 * u \<le> x" by simp
  then have "(2 ^ 23 :: real) \<le> x / u" using upos by (simp add: pos_le_divide_eq)
  then have "(2 ^ 23 :: int) \<le> \<lfloor>x / u\<rfloor>" by (simp add: le_floor_iff)
  then have "(2 ^ 23 :: real) \<le> of_int \<lfloor>x / u\<rfloor>"
    by (metis of_int_le_iff of_int_numeral of_int_power)
  then have "2 ^ 23 * u \<le> of_int \<lfloor>x / u\<rfloor> * u" using upos by simp
  with fy have "2 ^ 23 * u \<le> y" by linarith
  moreover have "(2::real) ^ 128 \<le> 2 ^ 23 * u"
  proof -
    have "(1::real) \<le> 2 ^ (n - 105)" by simp
    then have "(2::real) ^ 128 * 1 \<le> 2 ^ 128 * 2 ^ (n - 105)"
      by (intro mult_left_mono) simp_all
    also have "\<dots> = 2 ^ 23 * u" by (simp add: u105)
    finally show ?thesis by simp
  qed
  ultimately have ybig: "2 ^ 128 \<le> y" by linarith
  have "round32 x = (if \<bar>y\<bar> \<ge> 2 powr (of_int (127 + 1))
      then (if y < 0 then MinusInf else PlusInf) else Finite y)"
    unfolding round32_def
    by (rule round_to_nonzero[OF _ e_def u_def y_def]) (use xpos in simp)
  then show ?thesis using ybig by simp
qed

subsection \<open>Entry into resynchronisation\<close>

text \<open>
  C1 (as amended). Whenever the task enters or re-enters resynchronisation (the top of the
  outer loop), before any resync attempt, all three "synced" fields of AhrsStatus
  (HomeSet, CalibrationSet, AlgorithmSet) are set to false. The GPS consecutive-good-fix
  counter is not touched there: it is zeroed once, when the task starts.
\<close>

theorem resync_entry_clears_synced_flags:
  "task_step cc tr (OUTER_LOOP, s) = (RESYNC_SPIN, resync_entry s)
   \<and> HomeSet (AhrsStatus (resync_entry s)) = AHRSSTATUS_HOMESET_FALSE
   \<and> CalibrationSet (AhrsStatus (resync_entry s)) = AHRSSTATUS_CALIBRATIONSET_FALSE
   \<and> AlgorithmSet (AhrsStatus (resync_entry s)) = AHRSSTATUS_ALGORITHMSET_FALSE
   \<and> exchanges (resync_entry s) = exchanges s
   \<and> GPSGoodUpdates (resync_entry s) = GPSGoodUpdates s
   \<and> ahrscommsTask_start s = (OUTER_LOOP, s\<lparr>GPSGoodUpdates := 0\<rparr>)"
  by (simp add: resync_entry_def AhrsStatusGet_def AhrsStatusSet_def Let_def
      ahrscommsTask_start_def uavobject_options)

text \<open>
  The claim as first stated fails: in the run \<open>failed_update_run\<close> the task has
  re-entered resynchronisation after a failed update, the three fields are false, and the
  GPS counter still holds the 1 it reached while streaming.
\<close>

theorem resync_reentry_keeps_gps_counter:
  "fst failed_update_run = RESYNC_SPIN
   \<and> HomeSet (AhrsStatus (snd failed_update_run)) = AHRSSTATUS_HOMESET_FALSE
   \<and> CalibrationSet (AhrsStatus (snd failed_update_run)) = AHRSSTATUS_CALIBRATIONSET_FALSE
   \<and> AlgorithmSet (AhrsStatus (snd failed_update_run)) = AHRSSTATUS_ALGORITHMSET_FALSE
   \<and> GPSGoodUpdates (snd failed_update_run) = 1
   \<and> GPSGoodUpdates (snd failed_update_run) \<noteq> 0"
  by (simp add: task_defs example_defs uavobject_options)

subsection \<open>Failures while streaming\<close>

lemma all_categories:
  "(\<forall>k. P k) = (P UPDATE \<and> P ATTITUDERAW \<and> P HOMELOCATION \<and> P CALIBRATION \<and> P ALGORITHM)"
  by (metis error_category.exhaust)

text \<open>Each block makes its exchange exactly when its condition holds, records the
  transport's answer, and counts and leaves the loop exactly when that answer is not OK.\<close>

lemma update_home_effect: "block_effect tr HOMELOCATION s (update_home tr s)"
  by (simp add: block_effect_def exchange_log_def update_home_def Let_def exchange_def
      AhrsStatusGet_def AhrsStatusSet_def all_categories)

lemma update_calibration_effect:
  "block_effect tr CALIBRATION s (update_calibration_if_necessary tr s)"
  by (simp add: block_effect_def exchange_log_def update_calibration_if_necessary_def Let_def
      exchange_def AhrsStatusGet_def AhrsStatusSet_def all_categories update_calibration_def
      AHRSCalibrationSet_def)

lemma update_algorithm_effect: "block_effect tr ALGORITHM s (update_algorithm tr s)"
  by (simp add: block_effect_def exchange_log_def update_algorithm_def Let_def exchange_def
      AhrsStatusSet_def all_categories)

lemma update_raw_effect: "block_effect tr ATTITUDERAW s (update_raw tr s)"
  by (simp add: block_effect_def exchange_log_def update_raw_def Let_def exchange_def
      update_attitude_raw_def all_categories)

lemma update_filtered_effect: "block_effect tr UPDATE s (update_filtered cc tr s)"
  by (simp add: block_effect_def exchange_log_def update_filtered_def Let_def exchange_def
      split_def load_gps_position_def load_baro_altitude_def process_update_def all_categories)

text \<open>What the blocks leave untouched of what later blocks test.\<close>

lemma update_home_frame:
  "AHRSCalibrationIsUpdatedFlag (snd (update_home tr s)) = AHRSCalibrationIsUpdatedFlag s"
  "CalibrationSet (AhrsStatus (snd (update_home tr s))) = CalibrationSet (AhrsStatus s)"
  "AHRSSettingsIsUpdatedFlag (snd (update_home tr s)) = AHRSSettingsIsUpdatedFlag s"
  "AlgorithmSet (AhrsStatus (snd (update_home tr s))) = AlgorithmSet (AhrsStatus s)"
  "settings (snd (update_home tr s)) = settings s"
  by (simp_all add: update_home_def Let_def exchange_def AhrsStatusGet_def AhrsStatusSet_def)

lemma update_calibration_frame:
  "AHRSSettingsIsUpdatedFlag (snd (update_calibration_if_necessary tr s))
     = AHRSSettingsIsUpdatedFlag s"
  "AlgorithmSet (data (snd (update_calibration_if_necessary tr s)))
     = AlgorithmSet (AhrsStatus s)"
  "settings (snd (update_calibration_if_necessary tr s)) = settings s"
  by (simp_all add: update_calibration_if_necessary_def Let_def exchange_def AhrsStatusGet_def
      AhrsStatusSet_def update_calibration_def AHRSCalibrationSet_def)

lemma update_algorithm_frame:
  "settings (snd (update_algorithm tr s)) = settings s"
  by (simp add: update_algorithm_def Let_def exchange_def AhrsStatusSet_def)

lemma update_raw_frame:
  "settings (snd (update_raw tr s)) = settings s"
  by (simp add: update_raw_def Let_def exchange_def update_attitude_raw_def)

lemma then_step_Continue: "fst r = Continue \<Longrightarrow> then_step r f = f (snd r)"
  by (cases r) (simp add: then_step_def)

lemma then_step_Break: "fst r = Break \<Longrightarrow> then_step r f = r"
  by (cases r) (simp add: then_step_def)

lemma then_step_frame:
  assumes "\<And>s. g (snd (f s)) = g s"
  shows "g (snd (then_step r f)) = g (snd r)"
proof (cases "fst r")
  case Continue
  then show ?thesis by (simp add: then_step_Continue assms)
next
  case Break
  then show ?thesis by (simp add: then_step_Break)
qed

text \<open>Facts about the list of exchanges attempted.\<close>

lemma attempted_subset: "set (attempted tr s cs) \<subseteq> set cs"
  by (induction cs) auto

lemma attempted_distinct: "distinct cs \<Longrightarrow> distinct (attempted tr s cs)"
proof (induction cs)
  case Nil
  then show ?case by simp
next
  case (Cons c cs)
  then show ?case using attempted_subset[of tr s cs] by auto
qed

lemma attempted_failure_last:
  "c \<in> set (attempted tr s cs) \<Longrightarrow> answer tr c \<noteq> OPAHRS_RESULT_OK \<Longrightarrow>
   last (attempted tr s cs) = c"
proof (induction cs)
  case Nil
  then show ?case by simp
next
  case (Cons d cs)
  show ?case
  proof (cases "due d s")
    case False
    with Cons show ?thesis by simp
  next
    case True
    show ?thesis
    proof (cases "answer tr d = OPAHRS_RESULT_OK")
      case False
      with True Cons.prems show ?thesis by simp
    next
      case ok: True
      with True Cons.prems have "c \<in> set (attempted tr s cs)" by auto
      with Cons.IH Cons.prems(2) have "last (attempted tr s cs) = c" by simp
      moreover from \<open>c \<in> set (attempted tr s cs)\<close> have "attempted tr s cs \<noteq> []" by auto
      ultimately show ?thesis using True ok by simp
    qed
  qed
qed

lemma attempted_append:
  "attempted tr s (cs @ [c]) =
     (if \<exists>k\<in>set (attempted tr s cs). answer tr k \<noteq> OPAHRS_RESULT_OK
      then attempted tr s cs
      else attempted tr s cs @ (if due c s then [c] else []))"
  by (induction cs) auto

text \<open>One more block after the blocks for \<open>cs\<close>.\<close>

lemma run_effect_then:
  assumes run: "run_effect tr cs s r"
    and new: "c \<notin> set cs"
    and block: "\<And>s1. block_effect tr c s1 (f s1)"
    and same: "fst r = Continue \<Longrightarrow> due_at c (snd r) = due c s"
  shows "run_effect tr (cs @ [c]) s (then_step r f)"
proof (cases "fst r")
  case Break
  with run have "\<exists>k\<in>set (attempted tr s cs). answer tr k \<noteq> OPAHRS_RESULT_OK"
    by (simp add: run_effect_def)
  then have "attempted tr s (cs @ [c]) = attempted tr s cs"
    by (simp add: attempted_append)
  with run Break show ?thesis
    by (simp add: run_effect_def then_step_Break)
next
  case Continue
  with run have ok: "\<not> (\<exists>k\<in>set (attempted tr s cs). answer tr k \<noteq> OPAHRS_RESULT_OK)"
    by (simp add: run_effect_def)
  then have app: "attempted tr s (cs @ [c]) = attempted tr s cs @ (if due c s then [c] else [])"
    by (simp add: attempted_append)
  from new attempted_subset[of tr s cs] have notin: "c \<notin> set (attempted tr s cs)" by auto
  from run have log1: "exchange_log (snd r)
       = exchange_log s @ map (\<lambda>c. (Some c, answer tr c)) (attempted tr s cs)"
    and cnt1: "\<And>k. error_counter k (snd r) = error_counter k s"
    using ok by (auto simp add: run_effect_def)
  from block[of "snd r"] same[OF Continue]
  have log2: "exchange_log (snd (f (snd r)))
       = exchange_log (snd r) @ (if due c s then [(Some c, answer tr c)] else [])"
    and ex2: "fst (f (snd r))
       = (if due c s \<and> answer tr c \<noteq> OPAHRS_RESULT_OK then Break else Continue)"
    and cnt2: "\<And>k. error_counter k (snd (f (snd r)))
            = (if k = c \<and> due c s \<and> answer tr c \<noteq> OPAHRS_RESULT_OK
               then error_counter k (snd r) + 1 else error_counter k (snd r))"
    by (simp_all add: block_effect_def)
  have step: "then_step r f = f (snd r)" using Continue by (rule then_step_Continue)
  show ?thesis
    unfolding run_effect_def step app
    using log1 log2 ex2 cnt1 cnt2 ok notin
    by (auto split: if_splits)
qed

lemma run_effect_first:
  assumes block: "block_effect tr c s1 r"
    and same: "due_at c s1 = due c s"
    and log: "exchange_log s1 = exchange_log s"
    and cnt: "\<And>k. error_counter k s1 = error_counter k s"
  shows "run_effect tr [c] s r"
  using assms by (auto simp add: run_effect_def block_effect_def)

lemma error_counter_settings:
  "error_counter k (s\<lparr>settings := x\<rparr>) = error_counter k s"
  by (cases k) simp_all

lemma streaming_period_effect: "run_effect tr period_order s (streaming_period cc tr s)"
proof -
  let ?s0 = "s\<lparr>settings := AHRSSettings s\<rparr>"
  let ?r1 = "update_home tr ?s0"
  let ?r2 = "then_step ?r1 (update_calibration_if_necessary tr)"
  let ?r3 = "then_step ?r2 (update_algorithm tr)"
  let ?r4 = "then_step ?r3 (update_raw tr)"
  let ?r5 = "then_step ?r4 (update_filtered cc tr)"
  have set1: "settings (snd ?r1) = AHRSSettings s" by (simp add: update_home_frame)
  have set2: "settings (snd ?r2) = AHRSSettings s"
    using then_step_frame[of settings "update_calibration_if_necessary tr" ?r1] set1
    by (simp add: update_calibration_frame)
  have set3: "settings (snd ?r3) = AHRSSettings s"
    using then_step_frame[of settings "update_algorithm tr" ?r2] set2
    by (simp add: update_algorithm_frame)
  have set4: "settings (snd ?r4) = AHRSSettings s"
    using then_step_frame[of settings "update_raw tr" ?r3] set3
    by (simp add: update_raw_frame)
  have e1: "run_effect tr [HOMELOCATION] s ?r1"
    by (rule run_effect_first[OF update_home_effect])
       (simp_all add: exchange_log_def error_counter_settings)
  have e2: "run_effect tr ([HOMELOCATION] @ [CALIBRATION]) s ?r2"
    by (rule run_effect_then[OF e1 _ update_calibration_effect])
       (simp_all add: update_home_frame)
  have alg: "fst ?r2 = Continue \<Longrightarrow> due_at ALGORITHM (snd ?r2) = due ALGORITHM s"
  proof -
    assume c2: "fst ?r2 = Continue"
    have c1: "fst ?r1 = Continue"
    proof (cases "fst ?r1")
      case Break
      then have "?r2 = ?r1" by (rule then_step_Break)
      with c2 Break show ?thesis by simp
    qed simp
    then have "?r2 = update_calibration_if_necessary tr (snd ?r1)"
      by (rule then_step_Continue)
    then show ?thesis
      by (simp add: update_calibration_frame update_home_frame)
  qed
  have e3: "run_effect tr (([HOMELOCATION] @ [CALIBRATION]) @ [ALGORITHM]) s ?r3"
    by (rule run_effect_then[OF e2 _ update_algorithm_effect alg]) simp_all
  have e4: "run_effect tr ((([HOMELOCATION] @ [CALIBRATION]) @ [ALGORITHM]) @ [ATTITUDERAW]) s ?r4"
    by (rule run_effect_then[OF e3 _ update_raw_effect]) (simp_all add: set3)
  have e5: "run_effect tr
      (((([HOMELOCATION] @ [CALIBRATION]) @ [ALGORITHM]) @ [ATTITUDERAW]) @ [UPDATE]) s ?r5"
    by (rule run_effect_then[OF e4 _ update_filtered_effect]) (simp_all add: set4)
  then show ?thesis
    by (simp add: streaming_period_def period_order_def)
qed

text \<open>
  C2. For every state at the top of a streaming period and every answer of the transport:
  the period makes exactly the exchanges \<open>attempted\<close>, in order, each recorded with the
  result the transport gave; no category occurs twice. An exchange that the transport
  fails is the last one made in the period (the rest is abandoned and nothing is retried).
  The period leaves the inner loop exactly when an attempted exchange fails; then the
  counter of the failing category, and no other, is one higher (in the counters' 16-bit
  arithmetic), and the task goes back to the top of the outer loop, that is to
  resynchronisation. If no attempted exchange fails, no counter moves and the task stays
  in the inner loop.
\<close>

theorem streaming_failure_counts_once:
  "exchange_log (snd (streaming_period cc tr s))
     = exchange_log s @ map (\<lambda>c. (Some c, answer tr c)) (attempted tr s period_order)
   \<and> distinct (attempted tr s period_order)
   \<and> (\<forall>c\<in>set (attempted tr s period_order).
         answer tr c \<noteq> OPAHRS_RESULT_OK \<longrightarrow> last (attempted tr s period_order) = c)
   \<and> (fst (streaming_period cc tr s) = Break
        \<longleftrightarrow> (\<exists>c\<in>set (attempted tr s period_order). answer tr c \<noteq> OPAHRS_RESULT_OK))
   \<and> (\<forall>k. error_counter k (snd (streaming_period cc tr s))
          = (if k \<in> set (attempted tr s period_order) \<and> answer tr k \<noteq> OPAHRS_RESULT_OK
             then error_counter k s + 1 else error_counter k s))
   \<and> task_step cc tr (INNER_LOOP, s)
       = (if fst (streaming_period cc tr s) = Break then OUTER_LOOP else INNER_LOOP,
          snd (streaming_period cc tr s))"
proof -
  define r where "r = streaming_period cc tr s"
  define a where "a = attempted tr s period_order"
  have eff: "run_effect tr period_order s r"
    unfolding r_def by (rule streaming_period_effect)
  have d: "distinct a"
    unfolding a_def by (rule attempted_distinct) (simp add: period_order_def)
  have l: "\<forall>c\<in>set a. answer tr c \<noteq> OPAHRS_RESULT_OK \<longrightarrow> last a = c"
    unfolding a_def using attempted_failure_last by blast
  have t: "task_step cc tr (INNER_LOOP, s)
       = (if fst r = Break then OUTER_LOOP else INNER_LOOP, snd r)"
    unfolding r_def by (cases "streaming_period cc tr s") (auto split: loop_exit.splits)
  from eff have
    "exchange_log (snd r) = exchange_log s @ map (\<lambda>c. (Some c, answer tr c)) a"
    "fst r = Break \<longleftrightarrow> (\<exists>c\<in>set a. answer tr c \<noteq> OPAHRS_RESULT_OK)"
    "\<forall>k. error_counter k (snd r)
          = (if k \<in> set a \<and> answer tr k \<noteq> OPAHRS_RESULT_OK
             then error_counter k s + 1 else error_counter k s)"
    unfolding run_effect_def a_def by blast+
  with d l t have "exchange_log (snd r) = exchange_log s @ map (\<lambda>c. (Some c, answer tr c)) a
   \<and> distinct a
   \<and> (\<forall>c\<in>set a. answer tr c \<noteq> OPAHRS_RESULT_OK \<longrightarrow> last a = c)
   \<and> (fst r = Break \<longleftrightarrow> (\<exists>c\<in>set a. answer tr c \<noteq> OPAHRS_RESULT_OK))
   \<and> (\<forall>k. error_counter k (snd r)
          = (if k \<in> set a \<and> answer tr k \<noteq> OPAHRS_RESULT_OK
             then error_counter k s + 1 else error_counter k s))
   \<and> task_step cc tr (INNER_LOOP, s)
       = (if fst r = Break then OUTER_LOOP else INNER_LOOP, snd r)"
    by (intro conjI)
  then show ?thesis unfolding r_def a_def .
qed

text \<open>
  After power-up with filtered updates enabled, on a link whose combined update fails:
  home, calibration, algorithm and the combined update are attempted, the last fails, the
  period is left, the update counter is one higher and the other four are unchanged, and
  the task is at the top of the outer loop. On a link without failures the same period
  goes on and no counter moves.
\<close>

theorem streaming_failure_counts_once_witness:
  "attempted link_update_fails gps_boot_state period_order
     = [HOMELOCATION, CALIBRATION, ALGORITHM, UPDATE]
   \<and> answer link_update_fails UPDATE = OPAHRS_RESULT_FAILED
   \<and> exchange_log (snd (streaming_period zero_conversions link_update_fails gps_boot_state))
       = [(Some HOMELOCATION, OPAHRS_RESULT_OK), (Some CALIBRATION, OPAHRS_RESULT_OK),
          (Some ALGORITHM, OPAHRS_RESULT_OK), (Some UPDATE, OPAHRS_RESULT_FAILED)]
   \<and> fst (streaming_period zero_conversions link_update_fails gps_boot_state) = Break
   \<and> update_errors (snd (streaming_period zero_conversions link_update_fails gps_boot_state))
       = update_errors gps_boot_state + 1
   \<and> attituderaw_errors (snd (streaming_period zero_conversions link_update_fails
                                 gps_boot_state)) = attituderaw_errors gps_boot_state
   \<and> home_errors (snd (streaming_period zero_conversions link_update_fails gps_boot_state))
       = home_errors gps_boot_state
   \<and> calibration_errors (snd (streaming_period zero_conversions link_update_fails
                                 gps_boot_state)) = calibration_errors gps_boot_state
   \<and> algorithm_errors (snd (streaming_period zero_conversions link_update_fails
                               gps_boot_state)) = algorithm_errors gps_boot_state
   \<and> task_step zero_conversions link_update_fails (INNER_LOOP, gps_boot_state)
       = (OUTER_LOOP, snd (streaming_period zero_conversions link_update_fails gps_boot_state))
   \<and> fst (streaming_period zero_conversions link_ok gps_boot_state) = Continue
   \<and> update_errors (snd (streaming_period zero_conversions link_ok gps_boot_state))
       = update_errors gps_boot_state"
proof -
  define R where "R = streaming_period zero_conversions link_update_fails gps_boot_state"
  define C where "C = streaming_period zero_conversions link_ok gps_boot_state"
  have a: "attempted link_update_fails gps_boot_state period_order
     = [HOMELOCATION, CALIBRATION, ALGORITHM, UPDATE]"
    by (simp add: period_order_def example_defs uavobject_options)
  have b: "attempted link_ok gps_boot_state period_order
     = [HOMELOCATION, CALIBRATION, ALGORITHM, UPDATE]"
    by (simp add: period_order_def example_defs uavobject_options)
  have ans: "answer link_update_fails HOMELOCATION = OPAHRS_RESULT_OK"
    "answer link_update_fails CALIBRATION = OPAHRS_RESULT_OK"
    "answer link_update_fails ALGORITHM = OPAHRS_RESULT_OK"
    "answer link_update_fails UPDATE = OPAHRS_RESULT_FAILED"
    "answer link_ok HOMELOCATION = OPAHRS_RESULT_OK"
    "answer link_ok CALIBRATION = OPAHRS_RESULT_OK"
    "answer link_ok ALGORITHM = OPAHRS_RESULT_OK"
    "answer link_ok UPDATE = OPAHRS_RESULT_OK"
    by (simp_all add: example_defs)
  have l0: "exchange_log gps_boot_state = []"
    by (simp add: exchange_log_def example_defs)
  note fails = streaming_failure_counts_once[of zero_conversions link_update_fails
      gps_boot_state, folded R_def, unfolded a]
  note clean = streaming_failure_counts_once[of zero_conversions link_ok gps_boot_state,
      folded C_def, unfolded b]
  from fails have "exchange_log (snd R)
       = exchange_log gps_boot_state
           @ map (\<lambda>c. (Some c, answer link_update_fails c))
               [HOMELOCATION, CALIBRATION, ALGORITHM, UPDATE]"
    by (elim conjE)
  then have f1: "exchange_log (snd R)
       = [(Some HOMELOCATION, OPAHRS_RESULT_OK), (Some CALIBRATION, OPAHRS_RESULT_OK),
          (Some ALGORITHM, OPAHRS_RESULT_OK), (Some UPDATE, OPAHRS_RESULT_FAILED)]"
    by (simp add: ans l0 del: answer.simps)
  from fails have "fst R = Break
      \<longleftrightarrow> (\<exists>c\<in>set [HOMELOCATION, CALIBRATION, ALGORITHM, UPDATE].
             answer link_update_fails c \<noteq> OPAHRS_RESULT_OK)"
    by (elim conjE)
  then have f2: "fst R = Break" by (simp add: ans del: answer.simps)
  from fails have cnt: "\<forall>k. error_counter k (snd R)
          = (if k \<in> set [HOMELOCATION, CALIBRATION, ALGORITHM, UPDATE]
                \<and> answer link_update_fails k \<noteq> OPAHRS_RESULT_OK
             then error_counter k gps_boot_state + 1 else error_counter k gps_boot_state)"
    by (elim conjE)
  from cnt[rule_format, of UPDATE]
  have f3: "update_errors (snd R) = update_errors gps_boot_state + 1"
    by (simp add: ans del: answer.simps)
  from cnt[rule_format, of ATTITUDERAW]
  have f4: "attituderaw_errors (snd R) = attituderaw_errors gps_boot_state" by simp
  from cnt[rule_format, of HOMELOCATION]
  have f5: "home_errors (snd R) = home_errors gps_boot_state"
    by (simp add: ans del: answer.simps)
  from cnt[rule_format, of CALIBRATION]
  have f6: "calibration_errors (snd R) = calibration_errors gps_boot_state"
    by (simp add: ans del: answer.simps)
  from cnt[rule_format, of ALGORITHM]
  have f7: "algorithm_errors (snd R) = algorithm_errors gps_boot_state"
    by (simp add: ans del: answer.simps)
  from fails have "task_step zero_conversions link_update_fails (INNER_LOOP, gps_boot_state)
       = (if fst R = Break then OUTER_LOOP else INNER_LOOP, snd R)"
    by (elim conjE)
  with f2 have f8: "task_step zero_conversions link_update_fails (INNER_LOOP, gps_boot_state)
       = (OUTER_LOOP, snd R)"
    by simp
  from clean have "fst C = Break
      \<longleftrightarrow> (\<exists>c\<in>set [HOMELOCATION, CALIBRATION, ALGORITHM, UPDATE].
             answer link_ok c \<noteq> OPAHRS_RESULT_OK)"
    by (elim conjE)
  then have "fst C \<noteq> Break" by (simp add: ans del: answer.simps)
  then have c1: "fst C = Continue" by (cases "fst C") simp_all
  from clean have cntc: "\<forall>k. error_counter k (snd C)
          = (if k \<in> set [HOMELOCATION, CALIBRATION, ALGORITHM, UPDATE]
                \<and> answer link_ok k \<noteq> OPAHRS_RESULT_OK
             then error_counter k gps_boot_state + 1 else error_counter k gps_boot_state)"
    by (elim conjE)
  from cntc[rule_format, of UPDATE]
  have c2: "update_errors (snd C) = update_errors gps_boot_state"
    by (simp add: ans del: answer.simps)
  from a ans(4) f1 f2 f3 f4 f5 f6 f7 f8 c1 c2
  have "attempted link_update_fails gps_boot_state period_order
     = [HOMELOCATION, CALIBRATION, ALGORITHM, UPDATE]
   \<and> answer link_update_fails UPDATE = OPAHRS_RESULT_FAILED
   \<and> exchange_log (snd R)
       = [(Some HOMELOCATION, OPAHRS_RESULT_OK), (Some CALIBRATION, OPAHRS_RESULT_OK),
          (Some ALGORITHM, OPAHRS_RESULT_OK), (Some UPDATE, OPAHRS_RESULT_FAILED)]
   \<and> fst R = Break
   \<and> update_errors (snd R) = update_errors gps_boot_state + 1
   \<and> attituderaw_errors (snd R) = attituderaw_errors gps_boot_state
   \<and> home_errors (snd R) = home_errors gps_boot_state
   \<and> calibration_errors (snd R) = calibration_errors gps_boot_state
   \<and> algorithm_errors (snd R) = algorithm_errors gps_boot_state
   \<and> task_step zero_conversions link_update_fails (INNER_LOOP, gps_boot_state)
       = (OUTER_LOOP, snd R)
   \<and> fst C = Continue
   \<and> update_errors (snd C) = update_errors gps_boot_state"
    by (intro conjI)
  then show ?thesis unfolding R_def C_def .
qed

subsection \<open>GPS quality\<close>

lemma load_gps_position_home:
  "HomeLocation (snd (load_gps_position cc u s)) = HomeLocation s"
  by (simp add: load_gps_position_def Let_def)

lemma load_gps_position_passing:
  assumes "outdoor_home s" "Satellites (GPSPosition s) \<ge> 7" "PDOP (GPSPosition s) < 3.5"
  shows "gps_quality (gps (fst (load_gps_position cc u s)))
           = Some (if GPSGoodUpdates s < 30 then 0 else 1)"
    and "GPSGoodUpdates (snd (load_gps_position cc u s))
           = (if GPSGoodUpdates s < 30 then GPSGoodUpdates s + 1 else GPSGoodUpdates s)"
  using assms by (simp_all add: load_gps_position_def Let_def outdoor_home_def)

lemma load_gps_position_failing:
  assumes "outdoor_home s"
    "\<not> (Satellites (GPSPosition s) \<ge> 7 \<and> PDOP (GPSPosition s) < 3.5)"
  shows "gps_quality (gps (fst (load_gps_position cc u s))) = Some 0"
    and "GPSGoodUpdates (snd (load_gps_position cc u s)) = 0"
  using assms by (auto simp add: load_gps_position_def Let_def outdoor_home_def)

lemma word_count_step:
  fixes w :: "32 word"
  assumes "unat w = k" "k \<le> 30"
  shows "(w < 30) = (k < 30)" and "k < 30 \<Longrightarrow> unat (w + 1) = Suc k"
proof -
  show "(w < 30) = (k < 30)" using assms by (simp add: word_less_nat_alt)
  assume "k < 30"
  then show "unat (w + 1) = Suc k" using assms
    by (simp add: unat_word_ariths)
qed

text \<open>From a counter value \<open>k\<close>, a run of passing samples is tagged ramping while the
  count so far is below 30 and good from then on; the counter stops at 30.\<close>

lemma gps_samples_passing:
  assumes "outdoor_home s" "\<forall>d\<in>set ds. Satellites d \<ge> 7 \<and> PDOP d < 3.5"
    "unat (GPSGoodUpdates s) = k" "k \<le> 30"
  shows "map gps_quality (fst (gps_samples cc ds s))
           = map (\<lambda>i. Some (if k + i < 30 then 0 else 1)) [0 ..< length ds]
         \<and> unat (GPSGoodUpdates (snd (gps_samples cc ds s))) = min (k + length ds) 30"
  using assms
proof (induction ds arbitrary: s k)
  case Nil
  then show ?case by simp
next
  case (Cons d ds)
  let ?s0 = "s\<lparr>GPSPosition := d\<rparr>"
  let ?r = "load_gps_position cc unassigned_update ?s0"
  have out0: "outdoor_home ?s0" using Cons.prems(1) by (simp add: outdoor_home_def)
  have gate: "Satellites (GPSPosition ?s0) \<ge> 7" "PDOP (GPSPosition ?s0) < 3.5"
    using Cons.prems(2) by simp_all
  have cnt0: "unat (GPSGoodUpdates ?s0) = k" using Cons.prems(3) by simp
  have q: "gps_quality (gps (fst ?r)) = Some (if k < 30 then 0 else 1)"
    using load_gps_position_passing(1)[OF out0 gate, of cc unassigned_update]
      word_count_step(1)[OF cnt0 Cons.prems(4)] by simp
  have out1: "outdoor_home (snd ?r)"
    using out0 by (simp add: outdoor_home_def load_gps_position_home)
  define k' where "k' = (if k < 30 then Suc k else k)"
  have cnt1: "unat (GPSGoodUpdates (snd ?r)) = k'"
    using load_gps_position_passing(2)[OF out0 gate, of cc unassigned_update]
      word_count_step[OF cnt0 Cons.prems(4)] cnt0 by (simp add: k'_def)
  have k'le: "k' \<le> 30" using Cons.prems(4) by (simp add: k'_def)
  have rest: "\<forall>d\<in>set ds. Satellites d \<ge> 7 \<and> PDOP d < 3.5" using Cons.prems(2) by simp
  note IH = Cons.IH[OF out1 rest cnt1 k'le]
  have eqk: "\<And>i. (k' + i < 30) = (k + Suc i < 30)"
    using Cons.prems(4) by (auto simp add: k'_def)
  have mink: "min (k' + length ds) 30 = min (k + Suc (length ds)) 30"
    using Cons.prems(4) by (auto simp add: k'_def)
  show ?case
    using IH q eqk mink
    by (simp add: split_def Let_def map_upt_Suc del: upt_Suc)
qed

text \<open>
  C3 (as amended). For every sequence of GPS samples with home set and not indoor, all
  passing the gate (satellite count at least 7 and PDOP below 3.5) and starting from a
  zero counter, the emitted quality tag is ramping (0) for samples 1 to 30 and good (1)
  from sample 31 on: good is emitted only once 30 consecutive passing samples have been
  counted. The counter stops at 30. On a sample failing the gate the counter is reset to 0
  and the tag is ramping. (Sample \<open>i + 1\<close> is index \<open>i\<close> of the list.)
\<close>

theorem gps_hysteresis:
  assumes "home_Set (HomeLocation s) \<noteq> HOMELOCATION_SET_FALSE"
    and "home_Indoor (HomeLocation s) \<noteq> HOMELOCATION_INDOOR_TRUE"
    and "GPSGoodUpdates s = 0"
    and "\<forall>d\<in>set ds. Satellites d \<ge> 7 \<and> PDOP d < 3.5"
  shows "map gps_quality (fst (gps_samples cc ds s))
           = map (\<lambda>i. Some (if i < 30 then 0 else 1)) [0 ..< length ds]
       \<and> unat (GPSGoodUpdates (snd (gps_samples cc ds s))) = min (length ds) 30
       \<and> (home_Set (HomeLocation t) \<noteq> HOMELOCATION_SET_FALSE
            \<and> home_Indoor (HomeLocation t) \<noteq> HOMELOCATION_INDOOR_TRUE
            \<and> \<not> (Satellites (GPSPosition t) \<ge> 7 \<and> PDOP (GPSPosition t) < 3.5)
          \<longrightarrow> GPSGoodUpdates (snd (load_gps_position cc u t)) = 0
            \<and> gps_quality (gps (fst (load_gps_position cc u t))) = Some 0)"
proof -
  have out: "outdoor_home s" using assms(1,2) by (simp add: outdoor_home_def)
  have k: "unat (GPSGoodUpdates s) = 0" using assms(3) by simp
  from gps_samples_passing[OF out assms(4) k, of cc]
  have run: "map gps_quality (fst (gps_samples cc ds s))
           = map (\<lambda>i. Some (if i < 30 then 0 else 1)) [0 ..< length ds]
       \<and> unat (GPSGoodUpdates (snd (gps_samples cc ds s))) = min (length ds) 30"
    by simp
  have reset: "home_Set (HomeLocation t) \<noteq> HOMELOCATION_SET_FALSE
            \<and> home_Indoor (HomeLocation t) \<noteq> HOMELOCATION_INDOOR_TRUE
            \<and> \<not> (Satellites (GPSPosition t) \<ge> 7 \<and> PDOP (GPSPosition t) < 3.5)
          \<longrightarrow> GPSGoodUpdates (snd (load_gps_position cc u t)) = 0
            \<and> gps_quality (gps (fst (load_gps_position cc u t))) = Some 0"
    using load_gps_position_failing[of t cc u] by (simp add: outdoor_home_def)
  from run reset show ?thesis by blast
qed

text \<open>With 8 satellites and PDOP 2.0 throughout: of 31 samples, sample 30 is tagged
  ramping and sample 31 good; and a poor fix resets a counter that stood at 17.\<close>

theorem gps_hysteresis_witness:
  "home_Set (HomeLocation outdoor_state) \<noteq> HOMELOCATION_SET_FALSE
   \<and> home_Indoor (HomeLocation outdoor_state) \<noteq> HOMELOCATION_INDOOR_TRUE
   \<and> GPSGoodUpdates outdoor_state = 0
   \<and> Satellites good_fix \<ge> 7 \<and> PDOP good_fix < 3.5
   \<and> map gps_quality (fst (gps_samples zero_conversions (replicate 31 good_fix) outdoor_state))
       ! 29 = Some 0
   \<and> map gps_quality (fst (gps_samples zero_conversions (replicate 31 good_fix) outdoor_state))
       ! 30 = Some 1
   \<and> GPSGoodUpdates (snd (load_gps_position zero_conversions unassigned_update
         (outdoor_state\<lparr>GPSGoodUpdates := 17, GPSPosition := poor_fix\<rparr>))) = 0"
proof -
  have h1: "home_Set (HomeLocation outdoor_state) \<noteq> HOMELOCATION_SET_FALSE"
    and h2: "home_Indoor (HomeLocation outdoor_state) \<noteq> HOMELOCATION_INDOOR_TRUE"
    and h3: "GPSGoodUpdates outdoor_state = 0"
    by (simp_all add: example_defs uavobject_options)
  have h4: "\<forall>d\<in>set (replicate 31 good_fix). Satellites d \<ge> 7 \<and> PDOP d < 3.5"
    by (simp add: good_fix_def)
  have t: "home_Set (HomeLocation (outdoor_state\<lparr>GPSGoodUpdates := 17, GPSPosition := poor_fix\<rparr>))
             \<noteq> HOMELOCATION_SET_FALSE
         \<and> home_Indoor (HomeLocation (outdoor_state\<lparr>GPSGoodUpdates := 17,
                                                    GPSPosition := poor_fix\<rparr>))
             \<noteq> HOMELOCATION_INDOOR_TRUE
         \<and> \<not> (Satellites (GPSPosition (outdoor_state\<lparr>GPSGoodUpdates := 17,
                                                      GPSPosition := poor_fix\<rparr>)) \<ge> 7
              \<and> PDOP (GPSPosition (outdoor_state\<lparr>GPSGoodUpdates := 17,
                                                  GPSPosition := poor_fix\<rparr>)) < 3.5)"
    by (simp add: example_defs uavobject_options)
  note inst = gps_hysteresis[OF h1 h2 h3 h4, of zero_conversions
      "outdoor_state\<lparr>GPSGoodUpdates := 17, GPSPosition := poor_fix\<rparr>" unassigned_update]
  from inst have "map gps_quality
        (fst (gps_samples zero_conversions (replicate 31 good_fix) outdoor_state))
      = map (\<lambda>i. Some (if i < 30 then 0 else 1)) [0 ..< length (replicate 31 good_fix)]"
    by (elim conjE)
  then have m: "map gps_quality
        (fst (gps_samples zero_conversions (replicate 31 good_fix) outdoor_state))
      = map (\<lambda>i. Some (if i < 30 then 0 else 1)) [0 ..< 31]"
    by (simp only: length_replicate)
  have n29: "map gps_quality
        (fst (gps_samples zero_conversions (replicate 31 good_fix) outdoor_state)) ! 29 = Some 0"
    unfolding m by (simp del: upt_Suc)
  have n30: "map gps_quality
        (fst (gps_samples zero_conversions (replicate 31 good_fix) outdoor_state)) ! 30 = Some 1"
    unfolding m by (simp del: upt_Suc)
  from inst have "home_Set (HomeLocation (outdoor_state\<lparr>GPSGoodUpdates := 17, GPSPosition := poor_fix\<rparr>))
             \<noteq> HOMELOCATION_SET_FALSE
         \<and> home_Indoor (HomeLocation (outdoor_state\<lparr>GPSGoodUpdates := 17,
                                                    GPSPosition := poor_fix\<rparr>))
             \<noteq> HOMELOCATION_INDOOR_TRUE
         \<and> \<not> (Satellites (GPSPosition (outdoor_state\<lparr>GPSGoodUpdates := 17,
                                                      GPSPosition := poor_fix\<rparr>)) \<ge> 7
              \<and> PDOP (GPSPosition (outdoor_state\<lparr>GPSGoodUpdates := 17,
                                                  GPSPosition := poor_fix\<rparr>)) < 3.5)
       \<longrightarrow> GPSGoodUpdates (snd (load_gps_position zero_conversions unassigned_update
             (outdoor_state\<lparr>GPSGoodUpdates := 17, GPSPosition := poor_fix\<rparr>))) = 0
         \<and> gps_quality (gps (fst (load_gps_position zero_conversions unassigned_update
             (outdoor_state\<lparr>GPSGoodUpdates := 17, GPSPosition := poor_fix\<rparr>)))) = Some 0"
    by (elim conjE)
  from mp[OF this t] have r: "GPSGoodUpdates (snd (load_gps_position zero_conversions
         unassigned_update
         (outdoor_state\<lparr>GPSGoodUpdates := 17, GPSPosition := poor_fix\<rparr>))) = 0"
    by (elim conjE)
  have g: "Satellites good_fix \<ge> 7" "PDOP good_fix < 3.5"
    by (simp_all add: good_fix_def)
  from h1 h2 h3 g n29 n30 r show ?thesis by (intro conjI)
qed

text \<open>The claim as first stated fails: of 30 samples with 8 satellites and PDOP 2.0,
  starting from a zero counter, the 30th is still tagged ramping, not good.\<close>

theorem gps_sample_30_is_ramping:
  "map gps_quality (fst (gps_samples zero_conversions (replicate 30 good_fix) outdoor_state))
     ! 29 = Some 0
   \<and> map gps_quality (fst (gps_samples zero_conversions (replicate 30 good_fix) outdoor_state))
     ! 29 \<noteq> Some 1"
proof -
  have out: "outdoor_home outdoor_state"
    by (simp add: outdoor_home_def example_defs uavobject_options)
  have gate: "\<forall>d\<in>set (replicate 30 good_fix). Satellites d \<ge> 7 \<and> PDOP d < 3.5"
    by (simp add: good_fix_def)
  have k: "unat (GPSGoodUpdates outdoor_state) = 0"
    by (simp add: example_defs)
  from gps_samples_passing[OF out gate k, of zero_conversions]
  have m: "map gps_quality
        (fst (gps_samples zero_conversions (replicate 30 good_fix) outdoor_state))
      = map (\<lambda>i. Some (if i < 30 then 0 else 1)) [0 ..< 30]"
    by simp
  show ?thesis unfolding m by (simp del: upt_Suc)
qed


subsection \<open>Displacement while ramping\<close>

lemma load_gps_position_gps_only:
  "gps u = gps u' \<Longrightarrow>
   gps (fst (load_gps_position cc u s)) = gps (fst (load_gps_position cc u' s))"
  by (simp add: load_gps_position_def Let_def)

text \<open>
  C4 (as amended). For every GPS sample for which the emitted quality is ramping,
  \<open>load_gps_position\<close> assigns no displacement: NED, ground speed and heading of the
  GPS sub-message are what they were in the request it was given. The request that
  \<open>ahrscommsTask\<close> hands over is a fresh local, so in the update request that is sent
  the NED of a ramping sample is unassigned. Zero displacement is written in the indoor
  case (quality -1).
\<close>

theorem ramping_displacement_not_assigned:
  "(gps_quality (gps (fst (load_gps_position cc u s))) = Some 0 \<longrightarrow>
      gps_NED (gps (fst (load_gps_position cc u s))) = gps_NED (gps u)
    \<and> gps_groundspeed (gps (fst (load_gps_position cc u s))) = gps_groundspeed (gps u)
    \<and> gps_heading (gps (fst (load_gps_position cc u s))) = gps_heading (gps u))
   \<and> (UpdateFiltered (settings s) \<noteq> 0 \<and> GPSPositionIsUpdatedFlag s \<longrightarrow>
       (\<exists>req. exchanges (snd (update_filtered cc tr s))
                 = exchanges s @ [(REQ_update req, fst (PIOS_OPAHRS_SetGetUpdate tr))]
             \<and> gps req = gps (fst (load_gps_position cc unassigned_update s))
             \<and> (gps_quality (gps req) = Some 0 \<longrightarrow> gps_NED (gps req) = None)))
   \<and> (gps_quality (gps (fst (load_gps_position cc u t))) = Some (- 1) \<longrightarrow>
       gps_NED (gps (fst (load_gps_position cc u t))) = Some (0, 0, 0))"
proof (intro conjI impI)
  assume "UpdateFiltered (settings s) \<noteq> 0 \<and> GPSPositionIsUpdatedFlag s"
  then show "\<exists>req. exchanges (snd (update_filtered cc tr s))
                 = exchanges s @ [(REQ_update req, fst (PIOS_OPAHRS_SetGetUpdate tr))]
             \<and> gps req = gps (fst (load_gps_position cc unassigned_update s))
             \<and> (gps_quality (gps req) = Some 0 \<longrightarrow> gps_NED (gps req) = None)"
    by (auto simp add: update_filtered_def Let_def split_def exchange_def load_gps_position_def
        unassigned_update_def load_baro_altitude_def process_update_def)
qed (auto simp add: load_gps_position_def Let_def split: if_splits)

text \<open>A first good fix after power-up with home set is tagged ramping and sent with an
  unassigned NED; at power-up without home the indoor sample carries zeros.\<close>

theorem ramping_displacement_not_assigned_witness:
  "gps_quality (gps (fst (load_gps_position zero_conversions unassigned_update
                            streaming_gps_state))) = Some 0
   \<and> gps_NED (gps (fst (load_gps_position zero_conversions unassigned_update
                            streaming_gps_state))) = gps_NED (gps unassigned_update)
   \<and> UpdateFiltered (settings streaming_gps_state) \<noteq> 0
   \<and> GPSPositionIsUpdatedFlag streaming_gps_state
   \<and> (\<exists>req. exchanges (snd (update_filtered zero_conversions link_ok streaming_gps_state))
                = exchanges streaming_gps_state
                    @ [(REQ_update req, fst (PIOS_OPAHRS_SetGetUpdate link_ok))]
            \<and> gps_quality (gps req) = Some 0 \<and> gps_NED (gps req) = None)
   \<and> gps_quality (gps (fst (load_gps_position zero_conversions unassigned_update boot_state)))
       = Some (- 1)
   \<and> gps_NED (gps (fst (load_gps_position zero_conversions unassigned_update boot_state)))
       = Some (0, 0, 0)"
proof -
  define L where "L = load_gps_position zero_conversions unassigned_update streaming_gps_state"
  define F where "F = update_filtered zero_conversions link_ok streaming_gps_state"
  define I where "I = load_gps_position zero_conversions unassigned_update boot_state"
  note inst = ramping_displacement_not_assigned[of zero_conversions unassigned_update
      streaming_gps_state link_ok boot_state, folded L_def F_def I_def]
  have q: "gps_quality (gps (fst L)) = Some 0"
    by (simp add: L_def task_defs example_defs uavobject_options)
  have h: "UpdateFiltered (settings streaming_gps_state) \<noteq> 0"
    "GPSPositionIsUpdatedFlag streaming_gps_state"
    by (simp_all add: example_defs)
  have i: "gps_quality (gps (fst I)) = Some (- 1)"
    by (simp add: I_def task_defs example_defs uavobject_options)
  from inst q have ned: "gps_NED (gps (fst L)) = gps_NED (gps unassigned_update)"
    by blast
  from inst h obtain req where
    req: "exchanges (snd F) = exchanges streaming_gps_state
            @ [(REQ_update req, fst (PIOS_OPAHRS_SetGetUpdate link_ok))]"
      "gps req = gps (fst L)"
      "gps_quality (gps req) = Some 0 \<longrightarrow> gps_NED (gps req) = None"
    by blast
  from req q have sent: "\<exists>req. exchanges (snd F) = exchanges streaming_gps_state
            @ [(REQ_update req, fst (PIOS_OPAHRS_SetGetUpdate link_ok))]
          \<and> gps_quality (gps req) = Some 0 \<and> gps_NED (gps req) = None"
    by (intro exI[of _ req]) simp
  from inst i have zero: "gps_NED (gps (fst I)) = Some (0, 0, 0)"
    by blast
  from q ned h sent i zero
  have "gps_quality (gps (fst L)) = Some 0
      \<and> gps_NED (gps (fst L)) = gps_NED (gps unassigned_update)
      \<and> UpdateFiltered (settings streaming_gps_state) \<noteq> 0
      \<and> GPSPositionIsUpdatedFlag streaming_gps_state
      \<and> (\<exists>req. exchanges (snd F) = exchanges streaming_gps_state
                    @ [(REQ_update req, fst (PIOS_OPAHRS_SetGetUpdate link_ok))]
            \<and> gps_quality (gps req) = Some 0 \<and> gps_NED (gps req) = None)
      \<and> gps_quality (gps (fst I)) = Some (- 1)
      \<and> gps_NED (gps (fst I)) = Some (0, 0, 0)"
    by (intro conjI)
  then show ?thesis unfolding L_def F_def I_def .
qed

text \<open>The claim as first stated fails: with home set and a fix that fails the gate the
  sample is tagged ramping and its NED is not \<open>(0,0,0)\<close> but unassigned.\<close>

theorem ramping_displacement_is_unassigned:
  "gps_quality (gps (fst (load_gps_position zero_conversions unassigned_update outdoor_state)))
     = Some 0
   \<and> gps_NED (gps (fst (load_gps_position zero_conversions unassigned_update outdoor_state)))
     = None
   \<and> gps_NED (gps (fst (load_gps_position zero_conversions unassigned_update outdoor_state)))
     \<noteq> Some (0, 0, 0)"
  by (simp add: task_defs example_defs uavobject_options)


subsection \<open>Calibration request\<close>

text \<open>
  C6 (as amended). For every calibration record, the calibration request built for the
  push carries the accelerometer and gyroscope bias, scale and variance vectors and the
  magnetometer bias and variance vectors; the magnetometer scale vector is the only one
  not transmitted (the request does not depend on it).
\<close>

theorem load_calibration_fields:
  "(let d = AHRSCalibration s; req = load_calibration s in
      req_accel_bias req = accel_bias d \<and> req_accel_scale req = accel_scale d
    \<and> req_accel_var req = accel_var d
    \<and> req_gyro_bias req = gyro_bias d \<and> req_gyro_scale req = gyro_scale d
    \<and> req_gyro_var req = gyro_var d
    \<and> req_mag_var req = mag_var d
    \<and> req_mag_bias req = mag_bias d)
   \<and> load_calibration (s\<lparr>AHRSCalibration := (AHRSCalibration s)\<lparr>mag_scale := v\<rparr>\<rparr>)
       = load_calibration s"
  by (simp add: load_calibration_def Let_def)

text \<open>The claim as first stated fails: a magnetometer bias of \<open>(1,2,3)\<close> is carried by
  the request, which differs from the request built without it.\<close>

theorem load_calibration_sends_mag_bias:
  "req_mag_bias (load_calibration
       (boot_state\<lparr>AHRSCalibration := (AHRSCalibration boot_state)\<lparr>mag_bias := (1, 2, 3)\<rparr>\<rparr>))
     = (1, 2, 3)
   \<and> load_calibration
       (boot_state\<lparr>AHRSCalibration := (AHRSCalibration boot_state)\<lparr>mag_bias := (1, 2, 3)\<rparr>\<rparr>)
     \<noteq> load_calibration boot_state"
  by (simp add: load_calibration_def Let_def boot_state_def)

subsection \<open>CalibrationSet\<close>

text \<open>
  C7 (as amended). When the calibration is pushed (the calibration flag is set or
  CalibrationSet is false): after a successful exchange CalibrationSet is true unless the
  mode echoed in the response is \<open>AHRS_ECHO\<close> (the mode the specification calls
  continuous measurement), in which case CalibrationSet is left as it was, false or true;
  after a failed exchange CalibrationSet is false.
\<close>

theorem calibration_set_after_exchange:
  "AHRSCalibrationIsUpdatedFlag s
     \<or> CalibrationSet (AhrsStatus s) = AHRSSTATUS_CALIBRATIONSET_FALSE \<Longrightarrow>
   CalibrationSet (AhrsStatus (snd (update_calibration_if_necessary tr s))) =
     (if fst (PIOS_OPAHRS_SetGetCalibration tr) = OPAHRS_RESULT_OK
      then (if rsp_measure_var (snd (PIOS_OPAHRS_SetGetCalibration tr)) \<noteq> AHRS_ECHO
            then AHRSSTATUS_CALIBRATIONSET_TRUE
            else CalibrationSet (AhrsStatus s))
      else AHRSSTATUS_CALIBRATIONSET_FALSE)"
  by (simp add: update_calibration_if_necessary_def Let_def exchange_def AhrsStatusSet_def
      AhrsStatusGet_def update_calibration_def AHRSCalibrationSet_def)

text \<open>At power-up CalibrationSet is false, the push is made, and a successful exchange
  echoing \<open>AHRS_SET\<close> sets it.\<close>

theorem calibration_set_after_exchange_witness:
  "(AHRSCalibrationIsUpdatedFlag boot_state
      \<or> CalibrationSet (AhrsStatus boot_state) = AHRSSTATUS_CALIBRATIONSET_FALSE)
   \<and> CalibrationSet (AhrsStatus (snd (update_calibration_if_necessary link_ok boot_state)))
       = AHRSSTATUS_CALIBRATIONSET_TRUE"
proof -
  have h: "AHRSCalibrationIsUpdatedFlag boot_state
      \<or> CalibrationSet (AhrsStatus boot_state) = AHRSSTATUS_CALIBRATIONSET_FALSE"
    by (simp add: boot_state_def uavobject_options)
  have r: "fst (PIOS_OPAHRS_SetGetCalibration link_ok) = OPAHRS_RESULT_OK"
    "rsp_measure_var (snd (PIOS_OPAHRS_SetGetCalibration link_ok)) \<noteq> AHRS_ECHO"
    by (simp_all add: link_ok_def)
  from calibration_set_after_exchange[OF h, of link_ok] r
  have "CalibrationSet (AhrsStatus (snd (update_calibration_if_necessary link_ok boot_state)))
       = AHRSSTATUS_CALIBRATIONSET_TRUE"
    by (simp only: if_True if_False simp_thms)
  with h show ?thesis by (intro conjI)
qed

text \<open>
  The claim as first stated fails: in \<open>latched_state\<close> a first push has latched
  CalibrationSet and the calibration mode has since been edited; the push that follows
  asks for \<open>AHRS_ECHO\<close> and succeeds with that mode echoed, and CalibrationSet is true
  afterwards, not false.
\<close>

theorem calibration_set_stays_true_on_echo:
  "AHRSCalibrationIsUpdatedFlag latched_state
   \<and> CalibrationSet (AhrsStatus latched_state) = AHRSSTATUS_CALIBRATIONSET_TRUE
   \<and> req_measure_var (load_calibration latched_state) = AHRS_ECHO
   \<and> fst (PIOS_OPAHRS_SetGetCalibration link_echo) = OPAHRS_RESULT_OK
   \<and> rsp_measure_var (snd (PIOS_OPAHRS_SetGetCalibration link_echo)) = AHRS_ECHO
   \<and> exchanges (snd (update_calibration_if_necessary link_echo latched_state))
       = exchanges latched_state
           @ [(REQ_calibration (load_calibration latched_state), OPAHRS_RESULT_OK)]
   \<and> CalibrationSet (AhrsStatus (snd (update_calibration_if_necessary link_echo latched_state)))
       = AHRSSTATUS_CALIBRATIONSET_TRUE
   \<and> CalibrationSet (AhrsStatus (snd (update_calibration_if_necessary link_echo latched_state)))
       \<noteq> AHRSSTATUS_CALIBRATIONSET_FALSE"
  by (simp add: task_defs example_defs uavobject_options)

subsection \<open>Echo suppression\<close>

text \<open>
  C8. The calibration echo-suppression flag is one-shot. \<open>update_calibration\<close> sets it
  before it stores the echoed variances, and leaves the calibration flag alone. A
  calibration notification that finds it set clears it and does not set the calibration
  flag, whatever the event; so after the task's own write and the notification that
  follows, the calibration flag is as it was before. A notification that finds it clear
  sets the calibration flag.
\<close>

theorem calibration_echo_suppression:
  "update_calibration rsp s =
      AHRSCalibrationSet
        ((AHRSCalibration s)\<lparr>accel_var := rsp_accel_var rsp, gyro_var := rsp_gyro_var rsp,
                              mag_var := rsp_mag_var rsp\<rparr>)
        (s\<lparr>AHRSCalibrationIsLocallyUpdateFlag := True\<rparr>)
   \<and> AHRSCalibrationIsLocallyUpdateFlag (update_calibration rsp s) = True
   \<and> AHRSCalibrationIsUpdatedFlag (update_calibration rsp s) = AHRSCalibrationIsUpdatedFlag s
   \<and> AHRSCalibrationIsLocallyUpdateFlag
        (AHRSCalibrationUpdatedCb ev (update_calibration rsp s)) = False
   \<and> AHRSCalibrationIsUpdatedFlag (AHRSCalibrationUpdatedCb ev (update_calibration rsp s))
        = AHRSCalibrationIsUpdatedFlag s
   \<and> (AHRSCalibrationIsLocallyUpdateFlag t \<longrightarrow>
        AHRSCalibrationUpdatedCb ev t = t\<lparr>AHRSCalibrationIsLocallyUpdateFlag := False\<rparr>)
   \<and> (\<not> AHRSCalibrationIsLocallyUpdateFlag t' \<longrightarrow>
        AHRSCalibrationUpdatedCb ev t' = t'\<lparr>AHRSCalibrationIsUpdatedFlag := True\<rparr>)"
  by (simp add: update_calibration_def AHRSCalibrationSet_def AHRSCalibrationUpdatedCb_def
      Let_def)

text \<open>The state after a write-back has the flag set and the power-up state has it clear;
  a notification clears the one and sets the calibration flag of the other.\<close>

theorem calibration_echo_suppression_witness:
  "AHRSCalibrationIsLocallyUpdateFlag (update_calibration rsp_calibration_zero boot_state)
   \<and> AHRSCalibrationUpdatedCb 0 (update_calibration rsp_calibration_zero boot_state)
       = (update_calibration rsp_calibration_zero boot_state)
           \<lparr>AHRSCalibrationIsLocallyUpdateFlag := False\<rparr>
   \<and> \<not> AHRSCalibrationIsUpdatedFlag
          (AHRSCalibrationUpdatedCb 0 (update_calibration rsp_calibration_zero boot_state))
   \<and> \<not> AHRSCalibrationIsLocallyUpdateFlag boot_state
   \<and> AHRSCalibrationUpdatedCb 0 boot_state = boot_state\<lparr>AHRSCalibrationIsUpdatedFlag := True\<rparr>"
proof -
  define W where "W = update_calibration rsp_calibration_zero boot_state"
  note inst = calibration_echo_suppression[of rsp_calibration_zero boot_state 0 W boot_state,
      folded W_def]
  have clear: "\<not> AHRSCalibrationIsLocallyUpdateFlag boot_state"
    "\<not> AHRSCalibrationIsUpdatedFlag boot_state"
    by (simp_all add: boot_state_def)
  from inst have set: "AHRSCalibrationIsLocallyUpdateFlag W = True" by (elim conjE)
  from inst have "AHRSCalibrationIsLocallyUpdateFlag W \<longrightarrow>
      AHRSCalibrationUpdatedCb 0 W = W\<lparr>AHRSCalibrationIsLocallyUpdateFlag := False\<rparr>"
    by (elim conjE)
  with set have consumed:
    "AHRSCalibrationUpdatedCb 0 W = W\<lparr>AHRSCalibrationIsLocallyUpdateFlag := False\<rparr>"
    by (simp only: simp_thms)
  from inst have "AHRSCalibrationIsUpdatedFlag (AHRSCalibrationUpdatedCb 0 W)
      = AHRSCalibrationIsUpdatedFlag boot_state"
    by (elim conjE)
  with clear(2) have same: "\<not> AHRSCalibrationIsUpdatedFlag (AHRSCalibrationUpdatedCb 0 W)"
    by (simp only: simp_thms)
  from inst have "\<not> AHRSCalibrationIsLocallyUpdateFlag boot_state \<longrightarrow>
      AHRSCalibrationUpdatedCb 0 boot_state = boot_state\<lparr>AHRSCalibrationIsUpdatedFlag := True\<rparr>"
    by (elim conjE)
  with clear(1) have rearm:
    "AHRSCalibrationUpdatedCb 0 boot_state = boot_state\<lparr>AHRSCalibrationIsUpdatedFlag := True\<rparr>"
    by (simp only: simp_thms)
  from set have set': "AHRSCalibrationIsLocallyUpdateFlag W" by (simp only: simp_thms)
  from set' consumed same clear(1) rearm
  have "AHRSCalibrationIsLocallyUpdateFlag W
      \<and> AHRSCalibrationUpdatedCb 0 W = W\<lparr>AHRSCalibrationIsLocallyUpdateFlag := False\<rparr>
      \<and> \<not> AHRSCalibrationIsUpdatedFlag (AHRSCalibrationUpdatedCb 0 W)
      \<and> \<not> AHRSCalibrationIsLocallyUpdateFlag boot_state
      \<and> AHRSCalibrationUpdatedCb 0 boot_state
          = boot_state\<lparr>AHRSCalibrationIsUpdatedFlag := True\<rparr>"
    by (intro conjI)
  then show ?thesis unfolding W_def .
qed

subsection \<open>Attitude\<close>

text \<open>
  C9 (as amended). For every attitude update response, with roll, pitch and yaw as the
  conversion of the response quaternion gives them: the published yaw is the
  single-precision sum of the converted yaw and 360 if the converted yaw is negative, and
  the converted yaw unchanged otherwise; the published roll and pitch are the converted
  ones minus the configured roll and pitch bias, and nothing is subtracted from yaw. For a
  converted yaw from 0 up to, not including, 360 the published yaw is that value, in
  [0,360). For a converted yaw from -360 up to, not including, 0 the published yaw lies
  between 0 and 360, both ends included.
\<close>

theorem process_update_attitude:
  "(let rpy = Quaternion2RPY cc (quaternion u);
        yaw = snd (snd rpy);
        a = AttitudeActual (process_update cc u s)
    in Yaw a = (if flt yaw (Finite 0) then fadd yaw (Finite 360) else yaw)
     \<and> Roll a = fsub (fst rpy) (RollBias (AttitudeSettings s))
     \<and> Pitch a = fsub (fst (snd rpy)) (PitchBias (AttitudeSettings s))
     \<and> (yaw = Finite y \<and> 0 \<le> y \<and> y < 360 \<longrightarrow> Yaw a = Finite y)
     \<and> (yaw = Finite y \<and> - 360 \<le> y \<and> y < 0 \<longrightarrow>
          (\<exists>r. Yaw a = Finite r \<and> 0 \<le> r \<and> r \<le> 360)))"
proof -
  have neg: "- 360 \<le> y \<Longrightarrow> y < 0 \<Longrightarrow> \<exists>r. round32 (y + 360) = Finite r \<and> 0 \<le> r \<and> r \<le> 360"
    by (rule round32_range_360) simp_all
  show ?thesis
    using neg by (auto simp add: process_update_def Let_def)
qed

text \<open>A conversion that gives roll 10, pitch 20 and yaw 45 has its yaw published
  unchanged; one that gives yaw -90 has a yaw between 0 and 360 published.\<close>

theorem process_update_attitude_witness:
  "snd (snd (Quaternion2RPY (fixed_conversions (Finite 10, Finite 20, Finite 45))
               (quaternion rsp_update_zero))) = Finite 45
   \<and> (0::real) \<le> 45 \<and> (45::real) < 360
   \<and> Yaw (AttitudeActual (process_update (fixed_conversions (Finite 10, Finite 20, Finite 45))
                             rsp_update_zero boot_state)) = Finite 45
   \<and> snd (snd (Quaternion2RPY (fixed_conversions (Finite 10, Finite 20, Finite (- 90)))
                   (quaternion rsp_update_zero))) = Finite (- 90)
   \<and> - 360 \<le> (- 90 :: real) \<and> (- 90 :: real) < 0
   \<and> (\<exists>r. Yaw (AttitudeActual (process_update
                 (fixed_conversions (Finite 10, Finite 20, Finite (- 90)))
                 rsp_update_zero boot_state)) = Finite r \<and> 0 \<le> r \<and> r \<le> 360)"
proof -
  define A where "A = AttitudeActual (process_update
      (fixed_conversions (Finite 10, Finite 20, Finite 45)) rsp_update_zero boot_state)"
  define B where "B = AttitudeActual (process_update
      (fixed_conversions (Finite 10, Finite 20, Finite (- 90))) rsp_update_zero boot_state)"
  have c1: "Quaternion2RPY (fixed_conversions (Finite 10, Finite 20, Finite 45))
              (quaternion rsp_update_zero) = (Finite 10, Finite 20, Finite 45)"
    and c2: "Quaternion2RPY (fixed_conversions (Finite 10, Finite 20, Finite (- 90)))
              (quaternion rsp_update_zero) = (Finite 10, Finite 20, Finite (- 90))"
    by (simp_all add: fixed_conversions_def)
  note ia = process_update_attitude[of "fixed_conversions (Finite 10, Finite 20, Finite 45)"
      rsp_update_zero boot_state 45, folded A_def, unfolded Let_def c1 snd_conv fst_conv,
      THEN conjunct2, THEN conjunct2, THEN conjunct2, THEN conjunct1]
  have a: "Yaw A = Finite 45"
    by (rule ia[THEN mp]) simp
  note ib = process_update_attitude[of "fixed_conversions (Finite 10, Finite 20, Finite (- 90))"
      rsp_update_zero boot_state "- 90", folded B_def, unfolded Let_def c2 snd_conv fst_conv,
      THEN conjunct2, THEN conjunct2, THEN conjunct2, THEN conjunct2]
  have b: "\<exists>r. Yaw B = Finite r \<and> 0 \<le> r \<and> r \<le> 360"
    by (rule ib[THEN mp]) simp
  from a b c1 c2
  have "snd (snd (Quaternion2RPY (fixed_conversions (Finite 10, Finite 20, Finite 45))
               (quaternion rsp_update_zero))) = Finite 45
   \<and> (0::real) \<le> 45 \<and> (45::real) < 360
   \<and> Yaw A = Finite 45
   \<and> snd (snd (Quaternion2RPY (fixed_conversions (Finite 10, Finite 20, Finite (- 90)))
                   (quaternion rsp_update_zero))) = Finite (- 90)
   \<and> - 360 \<le> (- 90 :: real) \<and> (- 90 :: real) < 0
   \<and> (\<exists>r. Yaw B = Finite r \<and> 0 \<le> r \<and> r \<le> 360)"
    by simp
  then show ?thesis unfolding A_def B_def .
qed

text \<open>
  The claim as first stated fails: a converted yaw of \<open>-2^-20\<close> is published as exactly
  360, because the sum is rounded to single precision; and a converted yaw of 400 is
  published as 400. Neither lies in [0,360).
\<close>

theorem process_update_yaw_not_below_360:
  "Yaw (AttitudeActual (process_update
          (fixed_conversions (Finite 0, Finite 0, Finite (- (1 / 2 ^ 20))))
          rsp_update_zero boot_state)) = Finite 360
   \<and> Yaw (AttitudeActual (process_update
          (fixed_conversions (Finite 0, Finite 0, Finite 400))
          rsp_update_zero boot_state)) = Finite 400"
proof -
  define a :: real where "a = 1 / 2 ^ 20"
  have apos: "0 < a" by (simp add: a_def)
  have "round32 (- a + 360) = Finite 360"
    unfolding a_def by (rule round32_yaw_edge)
  moreover have "360 - a = - a + 360" by simp
  ultimately have edge: "round32 (360 - a) = Finite 360" by (simp only:)
  show ?thesis
    unfolding a_def [symmetric]
    using apos by (simp add: process_update_def fixed_conversions_def Let_def edge)
qed

subsection \<open>Algorithm request\<close>

text \<open>
  C10. When the algorithm is pushed (the settings flag is set or AlgorithmSet is false) and
  the selected algorithm setting is neither the INSGPS choice nor the SIMPLE choice, the
  algorithm field of the SetAlgorithm request is not assigned before the request is sent:
  the request handed to the transport carries an unassigned algorithm.
\<close>

theorem update_algorithm_unassigned:
  "Algorithm (settings s) \<noteq> AHRSSETTINGS_ALGORITHM_INSGPS \<Longrightarrow>
   Algorithm (settings s) \<noteq> AHRSSETTINGS_ALGORITHM_SIMPLE \<Longrightarrow>
   AHRSSettingsIsUpdatedFlag s \<or> AlgorithmSet (data s) = AHRSSTATUS_ALGORITHMSET_FALSE \<Longrightarrow>
   exchanges (snd (update_algorithm tr s))
     = exchanges s @ [(REQ_algorithm \<lparr>algorithm = None\<rparr>, PIOS_OPAHRS_SetAlgorithm tr)]"
  by (simp add: update_algorithm_def Let_def exchange_def AhrsStatusSet_def)

text \<open>With the setting 2 and AlgorithmSet false the request goes out unassigned.\<close>

theorem update_algorithm_unassigned_witness:
  "Algorithm (settings other_algorithm_state) \<noteq> AHRSSETTINGS_ALGORITHM_INSGPS
   \<and> Algorithm (settings other_algorithm_state) \<noteq> AHRSSETTINGS_ALGORITHM_SIMPLE
   \<and> (AHRSSettingsIsUpdatedFlag other_algorithm_state
        \<or> AlgorithmSet (data other_algorithm_state) = AHRSSTATUS_ALGORITHMSET_FALSE)
   \<and> exchanges (snd (update_algorithm link_ok other_algorithm_state))
       = exchanges other_algorithm_state
           @ [(REQ_algorithm \<lparr>algorithm = None\<rparr>, PIOS_OPAHRS_SetAlgorithm link_ok)]"
proof -
  have h1: "Algorithm (settings other_algorithm_state) \<noteq> AHRSSETTINGS_ALGORITHM_INSGPS"
    and h2: "Algorithm (settings other_algorithm_state) \<noteq> AHRSSETTINGS_ALGORITHM_SIMPLE"
    and h3: "AHRSSettingsIsUpdatedFlag other_algorithm_state
        \<or> AlgorithmSet (data other_algorithm_state) = AHRSSTATUS_ALGORITHMSET_FALSE"
    by (simp_all add: other_algorithm_state_def boot_state_def uavobject_options)
  from h1 h2 h3 update_algorithm_unassigned[OF h1 h2 h3, of link_ok]
  show ?thesis by (intro conjI)
qed


subsection \<open>Magnetic reference\<close>

lemma load_magnetic_north_zero:
  "home_Be (HomeLocation s) = (Finite 0, Finite 0, Finite 0) \<Longrightarrow>
   Be (load_magnetic_north s) = (Finite 1, Finite 0, Finite 0)"
  by (simp add: load_magnetic_north_def)

text \<open>
  C5. The loaded vector is to have unit length for every stored reference other than the
  zero vector. The code does not achieve it: for the stored reference \<open>(2^-100, 0, 0)\<close>,
  a single-precision value that is not zero, the squares underflow to zero, the length is
  zero, and the vector loaded into the SetMagNorth request is \<open>(+infinity, NaN, NaN)\<close>.
\<close>

theorem load_magnetic_north_tiny_reference:
  "home_Be (HomeLocation tiny_reference_state) \<noteq> (Finite 0, Finite 0, Finite 0)
   \<and> Be (load_magnetic_north tiny_reference_state) = (PlusInf, NaN, NaN)"
proof -
  define a :: real where "a = 1 / 2 ^ 100"
  have apos: "0 < a" by (simp add: a_def)
  have "0 < a * a" using apos by simp
  moreover have "a * a < 2 powr (- 150)"
    by (simp add: a_def powr_minus_divide)
  ultimately have sq: "round32 (a * a) = Finite 0"
    by (rule round32_underflow)
  show ?thesis
    unfolding tiny_reference_state_def a_def [symmetric]
    using apos by (simp add: load_magnetic_north_def boot_state_def sq)
qed

text \<open>For the stored reference \<open>(2^70, 0, 0)\<close> the square overflows, the length is
  infinite, and the loaded vector is the zero vector.\<close>

lemma load_magnetic_north_huge_reference:
  "Be (load_magnetic_north
         (boot_state\<lparr>HomeLocation :=
            (HomeLocation boot_state)\<lparr>home_Be := (Finite (2 ^ 70), Finite 0, Finite 0)\<rparr>\<rparr>))
     = (Finite 0, Finite 0, Finite 0)"
proof -
  define a :: real where "a = 2 ^ 70"
  have apos: "0 < a" by (simp add: a_def)
  have "(2::real) powr 128 \<le> a * a" by (simp add: a_def)
  then have sq: "round32 (a * a) = PlusInf"
    by (rule round32_overflow)
  show ?thesis
    unfolding a_def [symmetric]
    using apos by (simp add: load_magnetic_north_def boot_state_def sq)
qed


end
